theory Spec2Isabelle
  imports Main
begin

section \<open>The INVITE session of lib/RTCSession.js\<close>

text \<open>
  The class \<open>RTCSession\<close> is embedded as a record \<open>session\<close> of its fields and
  one HOL function per method, taking the session and returning the session it leaves.
  A method the source names \<open>_foo\<close> is \<open>u_foo\<close> here (an Isabelle name cannot start
  with an underscore). What a method does beyond writing fields is appended to the
  field \<open>trace\<close>: every write to \<open>_status\<close>, every event emitted, every reply, every
  request handed to the dialog. A \<open>throw\<close> is the value \<open>Inl\<close> of the method's
  result, paired with the session as the throw leaves it. JavaScript timers are the
  table \<open>pending\<close> (handle, callback, delay in milliseconds); a timer fires through
  \<open>fire_timer\<close>. The promise \<open>_connectionPromiseQueue\<close> is the list of the
  reactions chained on it that have not run yet, with the state of the promise the
  first of them waits for; the reactions run when the microtask queue is drained and
  when an operation of the peer connection settles. Event subscribers are taken not to
  call back into the session while an event is emitted.
\<close>

subsection \<open>Values\<close>

datatype status =
    STATUS_NULL
  | STATUS_INVITE_SENT
  | STATUS_1XX_RECEIVED
  | STATUS_INVITE_RECEIVED
  | STATUS_WAITING_FOR_ANSWER
  | STATUS_ANSWERED
  | STATUS_WAITING_FOR_ACK
  | STATUS_CANCELED
  | STATUS_TERMINATED
  | STATUS_CONFIRMED

datatype exn = TypeError string | InvalidStateError status

datatype originator = Local | Remote

datatype sip_method = ACK | BYE | CANCEL | INVITE | INFO | UPDATE | OTHER string

text \<open>
  The members of \<open>JsSIP_C.causes\<close> (lib/Constants.js is not among the sources; the
  names are the spec's cause vocabulary). \<open>causes_custom\<close> is any other truthy value
  a caller passes as \<open>options.cause\<close>.
\<close>

datatype cause =
    causes_BYE | causes_CANCELED | causes_NO_ACK | causes_BUSY | causes_REJECTED
  | causes_REDIRECTED | causes_UNAVAILABLE | causes_NOT_FOUND | causes_ADDRESS_INCOMPLETE
  | causes_INCOMPATIBLE_SDP | causes_MISSING_SDP | causes_BAD_MEDIA_DESCRIPTION
  | causes_AUTHENTICATION_ERROR | causes_REQUEST_TIMEOUT | causes_DIALOG_ERROR
  | causes_CONNECTION_ERROR | causes_WEBRTC_ERROR | causes_INTERNAL_ERROR
  | causes_USER_DENIED_MEDIA_ACCESS | causes_custom string

text \<open>
  A JavaScript argument that the source inspects with \<open>=== undefined\<close> and
  \<open>typeof\<close>. A number is given by the string \<open>Number.prototype.toString\<close> renders it
  as (\<open>'12'\<close>, \<open>'1.5'\<close>, \<open>'1e+21'\<close>, \<open>'NaN'\<close>), which is all the source reads of it.
  \<open>JSOther\<close> is a value that is neither \<open>undefined\<close>, a number nor a string (\<open>null\<close>,
  a boolean, an object), given by the string a template literal renders it as.
\<close>

datatype jsval = JSUndefined | JSNumber string | JSString string | JSOther string

text \<open>
  A numeric option (\<open>options.duration\<close>, \<open>options.interToneGap\<close>,
  \<open>options.sessionTimersExpires\<close>) by what the source asks of it, its truthiness and
  \<open>Utils.isDecimal\<close>: \<open>NoNumber\<close> is a falsy value that is no decimal (absent, \<open>null\<close>,
  \<open>NaN\<close>, the empty string); \<open>Zero\<close> is the number 0, falsy and a decimal;
  \<open>Decimal n\<close> is a truthy value for which \<open>Utils.isDecimal\<close> holds, of numeric value
  \<open>n\<close> (a number other than 0, or a string of digits, \<open>'0'\<close> among them);
  \<open>NotDecimal\<close> is a truthy value that is no decimal.
\<close>

datatype jsnum = NoNumber | Zero | Decimal int | NotDecimal

datatype role = UAC | UAS

datatype dialog_status = Dialog_STATUS_EARLY | Dialog_STATUS_CONFIRMED

record dialog_id =
  call_id :: string
  local_tag :: string
  remote_tag :: string

record dialog =
  dlg_id :: dialog_id
  dlg_state :: dialog_status
  uac_pending_reply :: bool
  uas_pending_reply :: bool

text \<open>
  A SIP message as the session reads it, request or response. \<open>m_dialog_error\<close> is
  the \<open>error\<close> property the \<open>Dialog\<close> constructor would report for this message
  (lib/Dialog.js is not among the sources).
\<close>

record message =
  m_method :: sip_method
  m_status_code :: nat
  m_call_id :: string
  m_from_tag :: string
  m_to_tag :: string
  m_body :: "string option"
  m_content_type :: "string option"
  m_has_contact :: bool
  m_session_expires :: "nat option"
  m_session_expires_refresher :: "string option"
  m_dialog_error :: "string option"
  m_extraHeaders :: "string list"

datatype sdp_type = Offer | Answer

datatype event =
    E_connecting
  | E_sending
  | E_progress originator message
  | E_accepted originator "message option"
  | E_confirmed originator "message option"
  | E_ended originator "message option" cause
  | E_failed originator "message option" cause
  | E_sdp originator sdp_type string
  | E_reinvite message
  | E_update message
  | E_ackReceived message
  | E_byeReceived
  | E_newDTMF
  | E_newInfo
  | E_icecandidate
  | E_createofferfailed
  | E_createanswerfailed
  | E_setlocaldescriptionfailed
  | E_setremotedescriptionfailed

text \<open>The options of \<open>dtmf.send(tone, options)\<close> once \<open>sendDTMF\<close> has set the duration.\<close>

record dtmf_send_options =
  ds_duration :: int
  ds_extraHeaders :: "string list"

text \<open>The asynchronous operations of the \<open>RTCPeerConnection\<close> that the session calls.\<close>

datatype media_op =
    Op_createOffer
  | Op_createAnswer
  | Op_setLocalDescription
  | Op_setRemoteDescription sdp_type string
  | Op_iceGathering

datatype action =
    StatusSet status
  | Emit event
  | UA_newRTCSession originator
  | UA_destroyRTCSession
  | InitCallback
  | Request_cancel "string option"
  | Request_reply nat
  | RequestSender_send "string option"
  | Reply message nat "string option" "string list" "string option"
  | Dialog_sendRequest sip_method "string list" "string option"
  | Dialog_terminate dialog_id
  | DTMF_send char dtmf_send_options
  | DTMF_init_incoming message
  | Info_send string "string option"
  | Info_init_incoming message
  | Connection_call media_op

text \<open>The closures handed to \<open>setTimeout\<close>, each with the variables it captured.\<close>

datatype callback =
    CB_invite2xxRetransmission message "string option" nat
  | CB_ackTimer
  | CB_sessionRefresh
  | CB_sessionExpired
  | CB_sendDTMF nat int int dtmf_send_options

text \<open>
  The functions chained on \<open>_connectionPromiseQueue\<close> with \<open>then\<close> and \<open>catch\<close>, and
  those chained inside them on the promises of the peer connection, each with the
  variables it captured. The number in the handlers of a re-offer is the index of the
  call of \<open>_sendReinvite\<close> or \<open>_sendUpdate\<close> that made the closure.
\<close>

datatype handler =
    H_setRemoteDescription sdp_type string
  | H_ack_confirmed message
  | H_ack_failed
  | H_createLocalDescription sdp_type
  | H_create sdp_type
  | H_create_failed sdp_type
  | H_setLocalDescription
  | H_setLocalDescription_failed
  | H_gather sdp_type
  | H_ready sdp_type
  | H_late_sendAnswer message
  | H_late_failed message
  | H_offer_setRemoteDescription message string
  | H_offer_setRemoteDescription_failed message
  | H_offer_createLocalDescription message
  | H_offer_createLocalDescription_failed message
  | H_offer_sendAnswer message
  | H_1xx_failed
  | H_2xx_reoffer message
  | H_2xx_setLocalDescription
  | H_2xx_reoffer_failed message
  | H_2xx_setRemoteDescription message string
  | H_reoffer_send nat sip_method "string list"
  | H_reoffer_failed nat
  | H_reoffer_succeeded nat
  | H_reoffer_answer_failed nat

text \<open>
  A reaction chained on a promise: \<open>then(h)\<close>, \<open>catch(h)\<close>, or \<open>Aside h\<close>, the chain
  \<open>then(h).catch(debugerror)\<close> that \<open>_receiveReinvite\<close> and \<open>_receiveUpdate\<close> hang on
  the promise \<open>_processInDialogSdpOffer\<close> returns: it reacts to the queue's promise and
  the queue does not wait for it.
\<close>

datatype link = Then handler | Catch handler | Aside handler

text \<open>What a promise is fulfilled with: nothing the session reads, or an SDP.\<close>

datatype val = V_undefined | V_sdp string

text \<open>
  The state of a promise; a pending one waits for an operation of the peer connection.
  A rejection carries the text of its error.
\<close>

datatype promise = Fulfilled val | Rejected string | Pending media_op

text \<open>
  The closure variables of one call of \<open>_sendReinvite\<close> or \<open>_sendUpdate\<close>:
  the method, \<open>sdpOffer\<close>, whether \<open>eventHandlers\<close> are those of \<open>renegotiate\<close>, and
  \<open>succeeded\<close>.
\<close>

record reoffer =
  ro_method :: sip_method
  ro_sdpOffer :: bool
  ro_renegotiate :: bool
  ro_succeeded :: bool

subsection \<open>Module constants and the user agent\<close>

text \<open>
  Constants of modules that are not among the sources (lib/Timers.js, lib/Constants.js,
  lib/RTCSession/DTMF.js, lib/Utils.js); every function takes them as the parameter
  \<open>K\<close>, and no theorem fixes their values.
\<close>

record constants =
  T1 :: nat
  T2 :: nat
  TIMER_H :: nat
  MIN_SESSION_EXPIRES :: nat
  SESSION_EXPIRES :: nat
  REASON_PHRASE :: "int \<Rightarrow> string option"
  cause_text :: "cause \<Rightarrow> string"
  sipErrorCause :: "nat \<Rightarrow> cause"
  DEFAULT_DURATION :: int
  MIN_DURATION :: int
  MAX_DURATION :: int
  DEFAULT_INTER_TONE_GAP :: int
  MIN_INTER_TONE_GAP :: int

record ua =
  session_timers :: bool
  session_timers_refresh_method :: sip_method
  normalizeTarget :: "string \<Rightarrow> string option"
  contact_toString :: "bool \<Rightarrow> string"
  configuration_uri :: string

subsection \<open>The session\<close>

record timers =
  ackTimer :: "nat option"
  expiresTimer :: "nat option"
  invite2xxTimer :: "nat option"
  userNoAnswerTimer :: "nat option"

record sessionTimers =
  enabled :: bool
  refreshMethod :: sip_method
  defaultExpires :: nat
  currentExpires :: "nat option"
  running :: bool
  refresher :: bool
  timer :: "nat option"

record session =
  session_id :: "string option"
  ua_of :: ua
  status :: status
  dialog :: "dialog option"
  earlyDialogs :: "(string \<times> dialog) list"
  contact :: "string option"
  from_tag :: "string option"
  to_tag :: "string option"
  connectionPromiseQueue :: "link list"
  queue_promise :: promise
  answers :: "message list"
  reoffers :: "reoffer list"
  request :: "message option"
  is_canceled :: bool
  cancel_reason :: "string option"
  is_confirmed :: bool
  late_sdp :: bool
  rtcReady :: bool
  timers :: timers
  direction :: "string option"
  start_time :: "nat option"
  end_time :: "nat option"
  tones :: "string option"
  sessionTimers :: sessionTimers
  data :: string
  listeners :: "string list"
  initial_request :: "string option option"
  pending :: "(nat \<times> callback \<times> int) list"
  next_handle :: nat
  clock :: nat
  trace :: "action list"

text \<open>
  Fields beyond the constructor's: \<open>queue_promise\<close> (the state of the promise that
  the first reaction in \<open>connectionPromiseQueue\<close> waits for), \<open>answers\<close> (the 2xx
  responses whose \<open>setRemoteDescription\<close> is under way outside the queue),
  \<open>reoffers\<close> (the closures of the calls of \<open>_sendReinvite\<close> and \<open>_sendUpdate\<close>),
  \<open>listeners\<close> (the events \<open>connect\<close> subscribed
  handlers to), \<open>initial_request\<close> (the continuation \<open>_sendInitialRequest\<close> left
  for the next tick, with the SDP it captured), \<open>pending\<close> and \<open>next_handle\<close> (the
  timers), \<open>clock\<close> (what \<open>new Date()\<close> reads) and \<open>trace\<close>. \<open>local_identity\<close>,
  \<open>remote_identity\<close>, \<open>connection\<close> and the constraints are read by no code modelled
  here and are left out. \<open>data\<close> is the user's attachment, an opaque object named by
  a string.
\<close>

definition constructor :: "constants \<Rightarrow> ua \<Rightarrow> session" where
  "constructor K u =
     \<lparr> session_id = None, ua_of = u, status = STATUS_NULL, dialog = None,
       earlyDialogs = [], contact = None, from_tag = None, to_tag = None,
       connectionPromiseQueue = [], queue_promise = Fulfilled V_undefined, answers = [],
       reoffers = [], request = None, is_canceled = False,
       cancel_reason = Some [], is_confirmed = False, late_sdp = False, rtcReady = True,
       timers = \<lparr> ackTimer = None, expiresTimer = None, invite2xxTimer = None,
                  userNoAnswerTimer = None \<rparr>,
       direction = None, start_time = None, end_time = None, tones = None,
       sessionTimers = \<lparr> enabled = session_timers u,
                         refreshMethod = session_timers_refresh_method u,
                         defaultExpires = SESSION_EXPIRES K, currentExpires = None,
                         running = False, refresher = False, timer = None \<rparr>,
       data = [], listeners = [], initial_request = None, pending = [],
       next_handle = 0, clock = 0, trace = [] \<rparr>"

subsection \<open>Results, truthiness, strings\<close>

type_synonym 'a result = "(exn + 'a) \<times> session"

definition ok :: "'a \<Rightarrow> session \<Rightarrow> 'a result" where
  "ok v s = (Inr v, s)"

definition throw :: "exn \<Rightarrow> session \<Rightarrow> 'a result" where
  "throw e s = (Inl e, s)"

definition and_then :: "'a result \<Rightarrow> ('a \<Rightarrow> session \<Rightarrow> 'b result) \<Rightarrow> 'b result" where
  "and_then r f = (case r of (Inl e, s) \<Rightarrow> (Inl e, s) | (Inr v, s) \<Rightarrow> f v s)"

definition truthy_str :: "string option \<Rightarrow> bool" where
  "truthy_str x = (case x of None \<Rightarrow> False | Some t \<Rightarrow> t \<noteq> [])"

definition truthy_num :: "int option \<Rightarrow> bool" where
  "truthy_num x = (case x of None \<Rightarrow> False | Some n \<Rightarrow> n \<noteq> 0)"

definition truthy_nat :: "nat option \<Rightarrow> bool" where
  "truthy_nat x = (case x of None \<Rightarrow> False | Some n \<Rightarrow> n \<noteq> 0)"

definition str_or :: "string option \<Rightarrow> string \<Rightarrow> string" where
  "str_or x d = (case x of None \<Rightarrow> d | Some t \<Rightarrow> if t = [] then d else t)"

definition digit_char :: "nat \<Rightarrow> char" where
  "digit_char d = ''0123456789'' ! d"

fun show_nat :: "nat \<Rightarrow> string" where
  "show_nat n = (if n < 10 then [digit_char n] else show_nat (n div 10) @ [digit_char (n mod 10)])"

declare show_nat.simps [simp del]

definition show_int :: "int \<Rightarrow> string" where
  "show_int i = (if i < 0 then CHR ''-'' # show_nat (nat (- i)) else show_nat (nat i))"

definition quoted :: "string \<Rightarrow> string" where
  "quoted t = [CHR 0x22] @ t @ [CHR 0x22]"

subsection \<open>Trace and timers\<close>

definition act :: "action \<Rightarrow> session \<Rightarrow> session" where
  "act a s = s\<lparr>trace := trace s @ [a]\<rparr>"

definition emit :: "event \<Rightarrow> session \<Rightarrow> session" where
  "emit e s = act (Emit e) s"

definition set_status :: "status \<Rightarrow> session \<Rightarrow> session" where
  "set_status st s = act (StatusSet st) (s\<lparr>status := st\<rparr>)"

text \<open>
  The runtime keeps the delay of a timer in a signed 32-bit integer: a delay above
  2147483647 ms is replaced by 1 ms.
\<close>

definition setTimeout :: "callback \<Rightarrow> int \<Rightarrow> session \<Rightarrow> nat \<times> session" where
  "setTimeout cb delay s =
     (next_handle s,
      s\<lparr>pending := pending s @ [(next_handle s, cb, if 2147483647 < delay then 1 else delay)],
        next_handle := Suc (next_handle s)\<rparr>)"

definition clearTimeout :: "nat option \<Rightarrow> session \<Rightarrow> session" where
  "clearTimeout h s =
     (case h of None \<Rightarrow> s
      | Some i \<Rightarrow> s\<lparr>pending := filter (\<lambda>p. fst p \<noteq> i) (pending s)\<rparr>)"

fun events_of :: "action list \<Rightarrow> event list" where
  "events_of [] = []"
| "events_of (Emit e # xs) = e # events_of xs"
| "events_of (_ # xs) = events_of xs"

fun statuses_of :: "action list \<Rightarrow> status list" where
  "statuses_of [] = []"
| "statuses_of (StatusSet st # xs) = st # statuses_of xs"
| "statuses_of (_ # xs) = statuses_of xs"

fun is_sent :: "action \<Rightarrow> bool" where
  "is_sent (Request_cancel _) = True"
| "is_sent (Request_reply _) = True"
| "is_sent (RequestSender_send _) = True"
| "is_sent (Reply _ _ _ _ _) = True"
| "is_sent (Dialog_sendRequest _ _ _) = True"
| "is_sent (DTMF_send _ _) = True"
| "is_sent (Info_send _ _) = True"
| "is_sent _ = False"

definition sent_of :: "action list \<Rightarrow> action list" where
  "sent_of xs = filter is_sent xs"

text \<open>The handles of the pending timers.\<close>

definition handles :: "session \<Rightarrow> nat set" where
  "handles s = fst ` set (pending s)"

subsection \<open>Closing the session\<close>

definition terminate_early_dialogs :: "session \<Rightarrow> session" where
  "terminate_early_dialogs s =
     (s\<lparr>earlyDialogs := [],
        trace := trace s @ map (\<lambda>p. Dialog_terminate (dlg_id (snd p))) (earlyDialogs s)\<rparr>)"

definition u_close :: "session \<Rightarrow> session" where
  "u_close s =
     (if status s = STATUS_TERMINATED then s
      else
        let s1 = set_status STATUS_TERMINATED s;
            s2 = clearTimeout (ackTimer (timers s1)) s1;
            s3 = clearTimeout (expiresTimer (timers s2)) s2;
            s4 = clearTimeout (invite2xxTimer (timers s3)) s3;
            s5 = clearTimeout (userNoAnswerTimer (timers s4)) s4;
            s6 = clearTimeout (timer (sessionTimers s5)) s5;
            s7 = (case dialog s6 of None \<Rightarrow> s6
                  | Some d \<Rightarrow> (act (Dialog_terminate (dlg_id d)) s6)\<lparr>dialog := None\<rparr>);
            s8 = terminate_early_dialogs s7
        in act UA_destroyRTCSession s8)"

definition u_ended :: "originator \<Rightarrow> message option \<Rightarrow> cause \<Rightarrow> session \<Rightarrow> session" where
  "u_ended orig msg c s =
     emit (E_ended orig msg c) (u_close (s\<lparr>end_time := Some (clock s)\<rparr>))"

definition u_failed :: "originator \<Rightarrow> message option \<Rightarrow> cause \<Rightarrow> session \<Rightarrow> session" where
  "u_failed orig msg c s = emit (E_failed orig msg c) (u_close s)"

definition u_confirmed :: "originator \<Rightarrow> message option \<Rightarrow> session \<Rightarrow> session" where
  "u_confirmed orig ack s = emit (E_confirmed orig ack) (s\<lparr>is_confirmed := True\<rparr>)"

definition u_progress :: "originator \<Rightarrow> message \<Rightarrow> session \<Rightarrow> session" where
  "u_progress orig response s = emit (E_progress orig response) s"

definition u_connecting :: "session \<Rightarrow> session" where
  "u_connecting s = emit E_connecting s"

definition u_newRTCSession :: "originator \<Rightarrow> session \<Rightarrow> session" where
  "u_newRTCSession orig s = act (UA_newRTCSession orig) s"

subsection \<open>Requests through the dialog\<close>

text \<open>
  \<open>sendRequest\<close> calls \<open>this._dialog.sendRequest\<close>: with no confirmed dialog
  (\<open>null\<close>, or deleted by \<open>_close\<close>) the property access throws a TypeError.
\<close>

definition sendRequest :: "sip_method \<Rightarrow> string list \<Rightarrow> string option \<Rightarrow> session \<Rightarrow> unit result" where
  "sendRequest meth extraHeaders body s =
     (case dialog s of
        None \<Rightarrow> throw (TypeError ''Cannot read properties of undefined'') s
      | Some d \<Rightarrow> ok () (act (Dialog_sendRequest meth extraHeaders body) s))"

definition request_cancel :: "string option \<Rightarrow> session \<Rightarrow> unit result" where
  "request_cancel reason s =
     (case request s of
        None \<Rightarrow> throw (TypeError ''Cannot read properties of null'') s
      | Some r \<Rightarrow> ok () (act (Request_cancel reason) s))"

definition request_reply :: "nat \<Rightarrow> session \<Rightarrow> unit result" where
  "request_reply code s =
     (case request s of
        None \<Rightarrow> throw (TypeError ''Cannot read properties of null'') s
      | Some r \<Rightarrow> ok () (act (Request_reply code) s))"

subsection \<open>terminate\<close>

record terminate_options =
  t_cause :: "cause option"
  t_extraHeaders :: "string list"
  t_body :: "string option"
  t_status_code :: "int option"
  t_reason_phrase :: "string option"

definition invalid_status_code :: "int option \<Rightarrow> bool" where
  "invalid_status_code c =
     (case c of None \<Rightarrow> False | Some n \<Rightarrow> n \<noteq> 0 \<and> (n < 200 \<or> 700 \<le> n))"

definition cancel_reason_of :: "int \<Rightarrow> string \<Rightarrow> string" where
  "cancel_reason_of code phrase =
     ''SIP ;cause='' @ show_int code @ '' ;text='' @ quoted phrase"

definition reason_header :: "int \<Rightarrow> string \<Rightarrow> string" where
  "reason_header code phrase =
     ''Reason: SIP ;cause='' @ show_int code @ ''; text='' @ quoted phrase"

definition reason_phrase_of :: "constants \<Rightarrow> string option \<Rightarrow> int option \<Rightarrow> string" where
  "reason_phrase_of K phrase code =
     str_or phrase (str_or (case code of None \<Rightarrow> None | Some n \<Rightarrow> REASON_PHRASE K n) [])"

text \<open>
  The value \<open>terminate\<close> computes for \<open>cancel_reason\<close> (\<open>undefined\<close> without a
  status code) and the extra headers of its BYE.
\<close>

definition cancel_reason_for :: "constants \<Rightarrow> terminate_options \<Rightarrow> string option" where
  "cancel_reason_for K options =
     (if truthy_num (t_status_code options)
      then Some (cancel_reason_of (the (t_status_code options))
                   (reason_phrase_of K (t_reason_phrase options) (t_status_code options)))
      else None)"

definition bye_headers :: "constants \<Rightarrow> terminate_options \<Rightarrow> string list" where
  "bye_headers K options =
     (if truthy_num (t_status_code options)
      then t_extraHeaders options
             @ [reason_header (the (t_status_code options))
                  (reason_phrase_of K (t_reason_phrase options) (t_status_code options))]
      else t_extraHeaders options)"

definition terminate :: "constants \<Rightarrow> terminate_options \<Rightarrow> session \<Rightarrow> unit result" where
  "terminate K options s =
     (let cause = (case t_cause options of None \<Rightarrow> causes_BYE | Some c \<Rightarrow> c);
          body = t_body options;
          status_code = t_status_code options
      in
      if status s = STATUS_TERMINATED then throw (InvalidStateError (status s)) s
      else if status s = STATUS_NULL \<or> status s = STATUS_INVITE_SENT
              \<or> status s = STATUS_1XX_RECEIVED then
        (if invalid_status_code status_code
         then throw (TypeError (''Invalid status_code: '' @ show_int (the status_code))) s
         else
           and_then
             (if status s = STATUS_NULL \<or> status s = STATUS_INVITE_SENT
              then ok () (s\<lparr>is_canceled := True, cancel_reason := cancel_reason_for K options\<rparr>)
              else request_cancel (cancel_reason_for K options) s)
             (\<lambda>_ s1. ok () (u_failed Local None causes_CANCELED
                               (set_status STATUS_CANCELED s1))))
      else if status s = STATUS_WAITING_FOR_ACK \<or> status s = STATUS_CONFIRMED then
        (if invalid_status_code status_code
         then throw (TypeError (''Invalid status_code: '' @ show_int (the status_code))) s
         else
           and_then (sendRequest BYE (bye_headers K options) body s)
             (\<lambda>_ s1. ok () (u_ended Local None cause s1)))
      else ok () s)"

subsection \<open>sendDTMF and sendInfo\<close>

text \<open>
  \<open>o_duration_text\<close> and \<open>o_interToneGap_text\<close> are the strings that the template
  literals of the error messages render the two options as.
\<close>

record dtmf_options =
  o_duration :: jsnum
  o_interToneGap :: jsnum
  o_extraHeaders :: "string list"
  o_duration_text :: string
  o_interToneGap_text :: string

text \<open>The character class of \<open>/^[0-9A-DR#*,]+$/i\<close>.\<close>

definition tone_char :: "char \<Rightarrow> bool" where
  "tone_char c = (c \<in> set ''0123456789ABCDRabcdr#*,'')"

text \<open>
  The tones after \<open>tones.toString()\<close> for a number, when they pass the check
  \<open>!tones || typeof tones !== 'string' || !tones.match(...)\<close>; \<open>None\<close> when the check
  throws. \<open>tones_text\<close> is what \<open>${tones}\<close> renders in the message of that throw.
\<close>

definition checked_tones :: "jsval \<Rightarrow> string option" where
  "checked_tones v =
     (let t = (case v of JSNumber r \<Rightarrow> Some r | JSString x \<Rightarrow> Some x | _ \<Rightarrow> None)
      in case t of None \<Rightarrow> None
         | Some x \<Rightarrow> if x \<noteq> [] \<and> list_all tone_char x then Some x else None)"

definition tones_text :: "jsval \<Rightarrow> string" where
  "tones_text v =
     (case v of JSUndefined \<Rightarrow> ''undefined'' | JSNumber r \<Rightarrow> r | JSString x \<Rightarrow> x
      | JSOther r \<Rightarrow> r)"

text \<open>
  The checks of \<open>duration\<close> and \<open>interToneGap\<close>; the second argument is the text of the
  option for the error message.
\<close>

definition dtmf_duration :: "constants \<Rightarrow> jsnum \<Rightarrow> string \<Rightarrow> exn + int" where
  "dtmf_duration K d shown =
     (case d of
        NotDecimal \<Rightarrow> Inl (TypeError (''Invalid tone duration: '' @ shown))
      | NoNumber \<Rightarrow> Inr (DEFAULT_DURATION K)
      | Zero \<Rightarrow> Inr (DEFAULT_DURATION K)
      | Decimal n \<Rightarrow>
          if n < MIN_DURATION K then Inr (MIN_DURATION K)
          else if n > MAX_DURATION K then Inr (MAX_DURATION K)
          else Inr (abs n))"

definition dtmf_interToneGap :: "constants \<Rightarrow> jsnum \<Rightarrow> string \<Rightarrow> exn + int" where
  "dtmf_interToneGap K g shown =
     (case g of
        NotDecimal \<Rightarrow> Inl (TypeError (''Invalid interToneGap: '' @ shown))
      | NoNumber \<Rightarrow> Inr (DEFAULT_INTER_TONE_GAP K)
      | Zero \<Rightarrow> Inr (DEFAULT_INTER_TONE_GAP K)
      | Decimal n \<Rightarrow>
          if n < MIN_INTER_TONE_GAP K then Inr (MIN_INTER_TONE_GAP K)
          else Inr (abs n))"

text \<open>
  The inner function \<open>_sendDTMF\<close> of \<open>sendDTMF\<close>; \<open>position\<close>, \<open>duration\<close>,
  \<open>interToneGap\<close> and \<open>options\<close> are the variables of the enclosing call.

  Modelled from the spec: \<open>dtmf.send(tone, options)\<close> of lib/RTCSession/DTMF.js, which
  is not among the sources, is the action \<open>DTMF_send\<close>; by the spec each tone issues
  one INFO with \<open>application/dtmf-relay\<close>.
\<close>

definition u_sendDTMF :: "nat \<Rightarrow> int \<Rightarrow> int \<Rightarrow> dtmf_send_options \<Rightarrow> session \<Rightarrow> session" where
  "u_sendDTMF position duration interToneGap options s =
     (if status s = STATUS_TERMINATED \<or> \<not> truthy_str (tones s)
         \<or> length (the (tones s)) \<le> position
      then s\<lparr>tones := None\<rparr>
      else
        let tone = the (tones s) ! position;
            s1 = (if tone = CHR '','' then s else act (DTMF_send tone options) s);
            timeout = (if tone = CHR '','' then 2000 else duration + interToneGap)
        in snd (setTimeout (CB_sendDTMF (position + 1) duration interToneGap options) timeout s1))"

definition sendDTMF :: "constants \<Rightarrow> jsval \<Rightarrow> dtmf_options \<Rightarrow> session \<Rightarrow> unit result" where
  "sendDTMF K tns options s =
     (if tns = JSUndefined then throw (TypeError ''Not enough arguments'') s
      else if status s \<noteq> STATUS_CONFIRMED \<and> status s \<noteq> STATUS_WAITING_FOR_ACK
      then throw (InvalidStateError (status s)) s
      else
        case checked_tones tns of
          None \<Rightarrow> throw (TypeError (''Invalid tones: '' @ tones_text tns)) s
        | Some t \<Rightarrow>
            (case dtmf_duration K (o_duration options) (o_duration_text options) of
               Inl e \<Rightarrow> throw e s
             | Inr duration \<Rightarrow>
                 (case dtmf_interToneGap K (o_interToneGap options)
                         (o_interToneGap_text options) of
                    Inl e \<Rightarrow> throw e s
                  | Inr interToneGap \<Rightarrow>
                      if truthy_str (tones s)
                      then ok () (s\<lparr>tones := Some (the (tones s) @ t)\<rparr>)
                      else ok () (u_sendDTMF 0 duration interToneGap
                                    \<lparr>ds_duration = duration,
                                     ds_extraHeaders = o_extraHeaders options\<rparr>
                                    (s\<lparr>tones := Some t\<rparr>)))))"

text \<open>The handler \<open>onFailed\<close> that \<open>_sendDTMF\<close> gives to \<open>dtmf.send\<close>.\<close>

definition dtmf_onFailed :: "session \<Rightarrow> session" where
  "dtmf_onFailed s = s\<lparr>tones := None\<rparr>"

definition sendInfo :: "string \<Rightarrow> string option \<Rightarrow> session \<Rightarrow> unit result" where
  "sendInfo contentType body s =
     (if status s \<noteq> STATUS_CONFIRMED \<and> status s \<noteq> STATUS_WAITING_FOR_ACK
      then throw (InvalidStateError (status s)) s
      else ok () (act (Info_send contentType body) s))"

subsection \<open>Re-offers: renegotiate and the re-INVITE and UPDATE senders\<close>

text \<open>\<open>this._connectionPromiseQueue = this._connectionPromiseQueue.then(...)...\<close>.\<close>

definition enqueue :: "link list \<Rightarrow> session \<Rightarrow> session" where
  "enqueue ls s = s\<lparr>connectionPromiseQueue := connectionPromiseQueue s @ ls\<rparr>"

definition contact_header :: "session \<Rightarrow> string" where
  "contact_header s = ''Contact: '' @ (case contact s of None \<Rightarrow> ''null'' | Some c \<Rightarrow> c)"

definition session_expires_header :: "nat option \<Rightarrow> string \<Rightarrow> string" where
  "session_expires_header e r =
     ''Session-Expires: '' @ (case e of None \<Rightarrow> ''null'' | Some n \<Rightarrow> show_nat n)
       @ '';refresher='' @ r"

definition running_headers :: "session \<Rightarrow> string list" where
  "running_headers s =
     (if running (sessionTimers s)
      then [session_expires_header (currentExpires (sessionTimers s))
              (if refresher (sessionTimers s) then ''uac'' else ''uas'')]
      else [])"

definition u_isReadyToReOffer :: "session \<Rightarrow> bool" where
  "u_isReadyToReOffer s =
     (if \<not> rtcReady s then False
      else case dialog s of
             None \<Rightarrow> False
           | Some d \<Rightarrow> if uac_pending_reply d \<or> uas_pending_reply d then False else True)"

text \<open>
  \<open>_sendReinvite\<close> and \<open>_sendUpdate\<close>; the first argument tells whether
  \<open>options.eventHandlers\<close> are those of \<open>renegotiate\<close> (the session refresh passes
  none). The closure of a call whose \<open>sendRequest\<close> throws is referenced by nothing
  and is not recorded.
\<close>

definition u_sendReinvite :: "bool \<Rightarrow> string list \<Rightarrow> session \<Rightarrow> session" where
  "u_sendReinvite renegotiating extraHeaders s =
     (let hs = extraHeaders @ [contact_header s, ''Content-Type: application/sdp'']
                 @ running_headers s;
          i = length (reoffers s);
          s1 = s\<lparr>reoffers := reoffers s
                   @ [\<lparr> ro_method = INVITE, ro_sdpOffer = True,
                        ro_renegotiate = renegotiating, ro_succeeded = False \<rparr>]\<rparr>
      in enqueue [Then (H_createLocalDescription Offer), Then (H_reoffer_send i INVITE hs),
                  Catch (H_reoffer_failed i)] s1)"

definition u_sendUpdate :: "bool \<Rightarrow> bool \<Rightarrow> string list \<Rightarrow> session \<Rightarrow> unit result" where
  "u_sendUpdate renegotiating sdpOffer extraHeaders s =
     (let hs = extraHeaders @ [contact_header s] @ running_headers s;
          i = length (reoffers s);
          s1 = s\<lparr>reoffers := reoffers s
                   @ [\<lparr> ro_method = UPDATE, ro_sdpOffer = sdpOffer,
                        ro_renegotiate = renegotiating, ro_succeeded = False \<rparr>]\<rparr>
      in if sdpOffer
         then ok () (enqueue [Then (H_createLocalDescription Offer),
                              Then (H_reoffer_send i UPDATE
                                      (hs @ [''Content-Type: application/sdp''])),
                              Catch (H_reoffer_failed i)] s1)
         else sendRequest UPDATE hs None (if dialog s = None then s else s1))"

record renegotiate_options =
  r_useUpdate :: bool
  r_extraHeaders :: "string list"

definition renegotiate :: "renegotiate_options \<Rightarrow> session \<Rightarrow> bool result" where
  "renegotiate options s =
     (if status s \<noteq> STATUS_WAITING_FOR_ACK \<and> status s \<noteq> STATUS_CONFIRMED then ok False s
      else if \<not> u_isReadyToReOffer s then ok False s
      else
        and_then
          (if r_useUpdate options then u_sendUpdate True True (r_extraHeaders options) s
           else ok () (u_sendReinvite True (r_extraHeaders options) s))
          (\<lambda>_ s1. ok True s1))"

subsection \<open>Timers\<close>

definition u_setInvite2xxTimer :: "constants \<Rightarrow> message \<Rightarrow> string option \<Rightarrow> session \<Rightarrow> session" where
  "u_setInvite2xxTimer K req body s =
     (let timeout = T1 K;
          hs = setTimeout (CB_invite2xxRetransmission req body timeout) (int timeout) s
      in (snd hs)\<lparr>timers := (timers (snd hs))\<lparr>invite2xxTimer := Some (fst hs)\<rparr>\<rparr>)"

text \<open>The update of the closure variable \<open>timeout\<close> in \<open>invite2xxRetransmission\<close>.\<close>

definition next_timeout :: "constants \<Rightarrow> nat \<Rightarrow> nat" where
  "next_timeout K timeout =
     (if timeout < T2 K
      then (if timeout * 2 > T2 K then T2 K else timeout * 2)
      else timeout)"

definition invite2xxRetransmission :: "constants \<Rightarrow> message \<Rightarrow> string option \<Rightarrow> nat \<Rightarrow> session \<Rightarrow> session" where
  "invite2xxRetransmission K req body timeout s =
     (if status s \<noteq> STATUS_WAITING_FOR_ACK then s
      else
        let s1 = act (Reply req 200 None [contact_header s] body) s;
            timeout' = next_timeout K timeout;
            hs = setTimeout (CB_invite2xxRetransmission req body timeout') (int timeout') s1
        in (snd hs)\<lparr>timers := (timers (snd hs))\<lparr>invite2xxTimer := Some (fst hs)\<rparr>\<rparr>)"

definition u_setACKTimer :: "constants \<Rightarrow> session \<Rightarrow> session" where
  "u_setACKTimer K s =
     (let hs = setTimeout CB_ackTimer (int (TIMER_H K)) s
      in (snd hs)\<lparr>timers := (timers (snd hs))\<lparr>ackTimer := Some (fst hs)\<rparr>\<rparr>)"

definition ackTimer_fired :: "session \<Rightarrow> unit result" where
  "ackTimer_fired s =
     (if status s = STATUS_WAITING_FOR_ACK
      then and_then (sendRequest BYE [] None (clearTimeout (invite2xxTimer (timers s)) s))
             (\<lambda>_ s1. ok () (u_ended Remote None causes_NO_ACK s1))
      else ok () s)"

definition u_runSessionTimer :: "session \<Rightarrow> session" where
  "u_runSessionTimer s =
     (let expires = (case currentExpires (sessionTimers s) of None \<Rightarrow> 0 | Some e \<Rightarrow> e);
          s1 = s\<lparr>sessionTimers := (sessionTimers s)\<lparr>running := True\<rparr>\<rparr>;
          s2 = clearTimeout (timer (sessionTimers s1)) s1;
          hs = (if refresher (sessionTimers s2)
                then setTimeout CB_sessionRefresh (int (expires * 500)) s2
                else setTimeout CB_sessionExpired (int (expires * 1100)) s2)
      in (snd hs)\<lparr>sessionTimers := (sessionTimers (snd hs))\<lparr>timer := Some (fst hs)\<rparr>\<rparr>)"

definition sessionRefresh_fired :: "session \<Rightarrow> unit result" where
  "sessionRefresh_fired s =
     (if status s = STATUS_TERMINATED then ok () s
      else if refreshMethod (sessionTimers s) = UPDATE then u_sendUpdate False False [] s
      else ok () (u_sendReinvite False [] s))"

definition session_expired_options :: terminate_options where
  "session_expired_options =
     \<lparr> t_cause = Some causes_REQUEST_TIMEOUT, t_extraHeaders = [], t_body = None,
       t_status_code = Some 408, t_reason_phrase = Some ''Session Timer Expired'' \<rparr>"

definition sessionExpired_fired :: "constants \<Rightarrow> session \<Rightarrow> unit result" where
  "sessionExpired_fired K s =
     (if status s = STATUS_TERMINATED then ok () s
      else terminate K session_expired_options s)"

definition u_handleSessionTimersInIncomingRequest ::
    "constants \<Rightarrow> message \<Rightarrow> string list \<Rightarrow> session \<Rightarrow> string list \<times> session" where
  "u_handleSessionTimersInIncomingRequest K req responseExtraHeaders s =
     (if \<not> enabled (sessionTimers s) then (responseExtraHeaders, s)
      else
        let adopt = (truthy_nat (m_session_expires req)
                       \<and> MIN_SESSION_EXPIRES K \<le> the (m_session_expires req));
            current = (if adopt then the (m_session_expires req)
                       else defaultExpires (sessionTimers s));
            session_expires_refresher =
              (if adopt then str_or (m_session_expires_refresher req) ''uas'' else ''uas'');
            s1 = s\<lparr>sessionTimers := (sessionTimers s)\<lparr>currentExpires := Some current\<rparr>\<rparr>;
            hs = responseExtraHeaders
                   @ [session_expires_header (Some current) session_expires_refresher];
            s2 = s1\<lparr>sessionTimers :=
                      (sessionTimers s1)\<lparr>refresher := (session_expires_refresher = ''uas'')\<rparr>\<rparr>
        in (hs, u_runSessionTimer s2))"

definition u_handleSessionTimersInIncomingResponse :: "constants \<Rightarrow> message \<Rightarrow> session \<Rightarrow> session" where
  "u_handleSessionTimersInIncomingResponse K response s =
     (if \<not> enabled (sessionTimers s) then s
      else
        let adopt = (truthy_nat (m_session_expires response)
                       \<and> MIN_SESSION_EXPIRES K \<le> the (m_session_expires response));
            current = (if adopt then the (m_session_expires response)
                       else defaultExpires (sessionTimers s));
            session_expires_refresher =
              (if adopt then str_or (m_session_expires_refresher response) ''uac'' else ''uac'');
            s1 = s\<lparr>sessionTimers := (sessionTimers s)\<lparr>currentExpires := Some current\<rparr>\<rparr>;
            s2 = s1\<lparr>sessionTimers :=
                      (sessionTimers s1)\<lparr>refresher := (session_expires_refresher = ''uac'')\<rparr>\<rparr>
        in u_runSessionTimer s2)"

subsection \<open>Dialogs\<close>

text \<open>
  Modelled from the spec: the constructor and \<open>update\<close> of lib/Dialog.js, which is not
  among the sources. By the spec a dialog is created with a role from a SIP message, is
  identified by (call-id, local-tag, remote-tag), holds the flags \<open>uac_pending_reply\<close>
  and \<open>uas_pending_reply\<close>, and its construction can fail on a malformed message;
  promoting an early dialog to confirmed updates its state.
\<close>

definition Dialog_new :: "message \<Rightarrow> role \<Rightarrow> dialog_status \<Rightarrow> string + dialog" where
  "Dialog_new msg type st =
     (case m_dialog_error msg of
        Some err \<Rightarrow> Inl err
      | None \<Rightarrow>
          Inr \<lparr> dlg_id = \<lparr> call_id = m_call_id msg,
                           local_tag = (if type = UAS then m_to_tag msg else m_from_tag msg),
                           remote_tag = (if type = UAS then m_from_tag msg else m_to_tag msg) \<rparr>,
                dlg_state = st, uac_pending_reply = False, uas_pending_reply = False \<rparr>)"

definition Dialog_update :: "dialog \<Rightarrow> message \<Rightarrow> role \<Rightarrow> dialog" where
  "Dialog_update d msg type = d\<lparr>dlg_state := Dialog_STATUS_CONFIRMED\<rparr>"

text \<open>
  \<open>earlyDialogs\<close> is the object \<open>_earlyDialogs\<close> as an association list in insertion
  order, the order in which \<open>for ... in\<close> visits keys that are no array indices.
\<close>

definition dialog_ident :: "message \<Rightarrow> role \<Rightarrow> string" where
  "dialog_ident msg type =
     (let ltag = (if type = UAS then m_to_tag msg else m_from_tag msg);
          rtag = (if type = UAS then m_from_tag msg else m_to_tag msg)
      in m_call_id msg @ ltag @ rtag)"

definition u_createDialog :: "message \<Rightarrow> role \<Rightarrow> bool \<Rightarrow> session \<Rightarrow> bool \<times> session" where
  "u_createDialog msg type early s =
     (let ident = dialog_ident msg type;
          early_dialog = map_of (earlyDialogs s) ident
      in
      if early then
        (case early_dialog of
           Some d \<Rightarrow> (True, s)
         | None \<Rightarrow>
             (case Dialog_new msg type Dialog_STATUS_EARLY of
                Inl err \<Rightarrow> (False, u_failed Remote (Some msg) causes_INTERNAL_ERROR s)
              | Inr d \<Rightarrow> (True, s\<lparr>earlyDialogs := earlyDialogs s @ [(ident, d)]\<rparr>)))
      else
        let s1 = s\<lparr>from_tag := Some (m_from_tag msg), to_tag := Some (m_to_tag msg)\<rparr>
        in case early_dialog of
             Some d \<Rightarrow>
               (True, s1\<lparr>dialog := Some (Dialog_update d msg type),
                         earlyDialogs := filter (\<lambda>p. fst p \<noteq> ident) (earlyDialogs s1)\<rparr>)
           | None \<Rightarrow>
               (case Dialog_new msg type Dialog_STATUS_CONFIRMED of
                  Inl err \<Rightarrow> (False, u_failed Remote (Some msg) causes_INTERNAL_ERROR s1)
                | Inr d \<Rightarrow> (True, s1\<lparr>dialog := Some d\<rparr>)))"

definition u_acceptAndTerminate ::
    "constants \<Rightarrow> message \<Rightarrow> int option \<Rightarrow> string option \<Rightarrow> session \<Rightarrow> unit result" where
  "u_acceptAndTerminate K response status_code reason_phrase s =
     (let extraHeaders =
            (if truthy_num status_code
             then [reason_header (the status_code) (reason_phrase_of K reason_phrase status_code)]
             else []);
          cs = (if dialog s \<noteq> None then (True, s) else u_createDialog response UAC False s)
      in and_then
           (if fst cs
            then and_then (sendRequest ACK [] None (snd cs))
                   (\<lambda>_ s1. sendRequest BYE extraHeaders None s1)
            else ok () (snd cs))
           (\<lambda>_ s2. ok () (set_status STATUS_TERMINATED s2)))"

subsection \<open>Responses to the initial INVITE\<close>

definition u_receiveInviteResponse :: "constants \<Rightarrow> message \<Rightarrow> session \<Rightarrow> unit result" where
  "u_receiveInviteResponse K response s =
     (let code = m_status_code response in
      if dialog s \<noteq> None \<and> 200 \<le> code \<and> code \<le> 299 then
        (if call_id (dlg_id (the (dialog s))) = m_call_id response
            \<and> local_tag (dlg_id (the (dialog s))) = m_from_tag response
            \<and> remote_tag (dlg_id (the (dialog s))) = m_to_tag response
         then sendRequest ACK [] None s
         else
           (case Dialog_new response UAC Dialog_STATUS_CONFIRMED of
              Inl err \<Rightarrow> ok () s
            | Inr d \<Rightarrow>
                and_then (sendRequest ACK [] None s) (\<lambda>_ s1. sendRequest BYE [] None s1)))
      else if is_canceled s then
        (if 100 \<le> code \<and> code < 200 then request_cancel (cancel_reason s) s
         else if 200 \<le> code \<and> code < 299 then u_acceptAndTerminate K response None None s
         else ok () s)
      else if status s \<noteq> STATUS_INVITE_SENT \<and> status s \<noteq> STATUS_1XX_RECEIVED then ok () s
      else if code = 100 then ok () (set_status STATUS_1XX_RECEIVED s)
      else if 100 \<le> code \<and> code \<le> 199 then
        (if m_to_tag response = [] then ok () s
         else
           let cs = (if m_has_contact response then u_createDialog response UAC True s
                     else (True, s))
           in if \<not> fst cs then ok () (snd cs)
              else
                let s2 = u_progress Remote response (set_status STATUS_1XX_RECEIVED (snd cs))
                in if \<not> truthy_str (m_body response) then ok () s2
                   else ok () (enqueue [Then (H_setRemoteDescription Answer
                                                (the (m_body response))),
                                        Catch H_1xx_failed]
                                 (emit (E_sdp Remote Answer (the (m_body response))) s2)))
      else if 200 \<le> code \<and> code \<le> 299 then
        (let s1 = set_status STATUS_CONFIRMED s in
         if \<not> truthy_str (m_body response) then
           and_then
             (u_acceptAndTerminate K response (Some 400)
                (Some (cause_text K causes_MISSING_SDP)) s1)
             (\<lambda>_ s2. ok () (u_failed Remote (Some response) causes_BAD_MEDIA_DESCRIPTION s2))
         else
           let cs = u_createDialog response UAC False s1
           in if \<not> fst cs then ok () (snd cs)
              else ok () (enqueue [Then (H_2xx_reoffer response),
                                   Then (H_2xx_setRemoteDescription response
                                           (the (m_body response)))]
                            (emit (E_sdp Remote Answer (the (m_body response))) (snd cs))))
      else ok () (u_failed Remote (Some response) (sipErrorCause K code) s))"

subsection \<open>In-dialog requests\<close>

record reject_options =
  rj_status_code :: "int option"
  rj_reason_phrase :: "string option"
  rj_extraHeaders :: "string list"

text \<open>
  The function \<open>reject\<close> that \<open>_receiveReinvite\<close> and \<open>_receiveUpdate\<close> hand to the
  subscriber of \<open>reinvite\<close> and \<open>update\<close>. A subscriber that calls it while the event
  is emitted is the argument \<open>Some options\<close> of \<open>receiveRequest\<close>.
\<close>

definition reject :: "message \<Rightarrow> reject_options \<Rightarrow> session \<Rightarrow> unit result" where
  "reject req options s =
     (let status_code = (if truthy_num (rj_status_code options)
                         then the (rj_status_code options) else 403);
          reason_phrase = str_or (rj_reason_phrase options) []
      in if status s \<noteq> STATUS_CONFIRMED then ok () s
         else if status_code < 300 \<or> 700 \<le> status_code
         then throw (TypeError (''Invalid status_code: '' @ show_int status_code)) s
         else ok () (act (Reply req (nat status_code) (Some reason_phrase)
                            (rj_extraHeaders options) None) s))"

text \<open>
  \<open>_processInDialogSdpOffer\<close> with the reaction its two callers chain on the promise
  it returns, which is the queue's promise.
\<close>

definition u_processInDialogSdpOffer :: "message \<Rightarrow> session \<Rightarrow> session" where
  "u_processInDialogSdpOffer req s =
     enqueue [Then (H_offer_setRemoteDescription req (the (m_body req))),
              Then (H_offer_createLocalDescription req),
              Aside (H_offer_sendAnswer req)]
       (emit (E_sdp Remote Offer (the (m_body req))) s)"

text \<open>
  A re-INVITE without SDP queues the creation of an offer, then \<open>sendAnswer\<close>
  (\<open>H_late_sendAnswer\<close>), then the \<open>catch\<close> that replies 500.
\<close>

definition u_receiveReinvite :: "message \<Rightarrow> reject_options option \<Rightarrow> session \<Rightarrow> unit result" where
  "u_receiveReinvite req rejected s =
     (let contentType = m_content_type req;
          s1 = emit (E_reinvite req) s
      in case rejected of
           Some options \<Rightarrow> reject req options s1
         | None \<Rightarrow>
             let s2 = s1\<lparr>late_sdp := False\<rparr>
             in if \<not> truthy_str (m_body req)
                then ok () (enqueue [Then (H_createLocalDescription Offer),
                                     Then (H_late_sendAnswer req),
                                     Catch (H_late_failed req)] (s2\<lparr>late_sdp := True\<rparr>))
                else if contentType \<noteq> Some ''application/sdp''
                then ok () (act (Reply req 415 None [] None) s2)
                else ok () (u_processInDialogSdpOffer req s2))"

text \<open>The function \<open>sendAnswer\<close> of \<open>_receiveUpdate\<close>.\<close>

definition update_sendAnswer :: "constants \<Rightarrow> message \<Rightarrow> string option \<Rightarrow> session \<Rightarrow> session" where
  "update_sendAnswer K req desc s =
     (let hs = u_handleSessionTimersInIncomingRequest K req [contact_header s] s
      in act (Reply req 200 None (fst hs) desc) (snd hs))"

definition u_receiveUpdate :: "constants \<Rightarrow> message \<Rightarrow> reject_options option \<Rightarrow> session \<Rightarrow> unit result" where
  "u_receiveUpdate K req rejected s =
     (let contentType = m_content_type req;
          s1 = emit (E_update req) s
      in case rejected of
           Some options \<Rightarrow> reject req options s1
         | None \<Rightarrow>
             if \<not> truthy_str (m_body req)
             then ok () (update_sendAnswer K req None s1)
             else if contentType \<noteq> Some ''application/sdp''
             then ok () (act (Reply req 415 None [] None) s1)
             else ok () (u_processInDialogSdpOffer req s1))"

definition lower :: "char \<Rightarrow> char" where
  "lower c = (if 65 \<le> (of_char c :: nat) \<and> (of_char c :: nat) \<le> 90
              then char_of ((of_char c :: nat) + 32) else c)"

text \<open>\<open>contentType.match(/^application\/dtmf-relay/i)\<close>.\<close>

definition is_dtmf_relay :: "string \<Rightarrow> bool" where
  "is_dtmf_relay t =
     (take (length ''application/dtmf-relay'') (map lower t) = ''application/dtmf-relay'')"

definition missing_sdp_options :: terminate_options where
  "missing_sdp_options =
     \<lparr> t_cause = Some causes_MISSING_SDP, t_extraHeaders = [], t_body = None,
       t_status_code = Some 400, t_reason_phrase = None \<rparr>"

definition wrong_status :: "message \<Rightarrow> session \<Rightarrow> unit result" where
  "wrong_status req s = ok () (act (Reply req 403 (Some ''Wrong Status'') [] None) s)"

definition receiveRequest :: "constants \<Rightarrow> message \<Rightarrow> reject_options option \<Rightarrow> session \<Rightarrow> unit result" where
  "receiveRequest K req rejected s =
     (case m_method req of
        CANCEL \<Rightarrow>
          if status s = STATUS_WAITING_FOR_ANSWER \<or> status s = STATUS_ANSWERED
          then and_then (request_reply 487 (set_status STATUS_CANCELED s))
                 (\<lambda>_ s1. ok () (u_failed Remote (Some req) causes_CANCELED s1))
          else ok () s
      | ACK \<Rightarrow>
          (let s1 = emit (E_ackReceived req) s in
           if status s1 \<noteq> STATUS_WAITING_FOR_ACK then ok () s1
           else
             let s2 = set_status STATUS_CONFIRMED s1;
                 s3 = clearTimeout (ackTimer (timers s2)) s2;
                 s4 = clearTimeout (invite2xxTimer (timers s3)) s3
             in if late_sdp s4 then
                  (if \<not> truthy_str (m_body req) then terminate K missing_sdp_options s4
                   else ok () (enqueue [Then (H_setRemoteDescription Answer (the (m_body req))),
                                        Then (H_ack_confirmed req),
                                        Catch H_ack_failed]
                                 (emit (E_sdp Remote Answer (the (m_body req))) s4)))
                else if \<not> is_confirmed s4 then ok () (u_confirmed Remote (Some req) s4)
                else ok () s4)
      | BYE \<Rightarrow>
          if status s = STATUS_CONFIRMED \<or> status s = STATUS_WAITING_FOR_ACK
          then ok () (u_ended Remote (Some req) causes_BYE
                        (act (Reply req 200 None [] None) (emit E_byeReceived s)))
          else wrong_status req s
      | INVITE \<Rightarrow>
          if status s = STATUS_CONFIRMED then u_receiveReinvite req rejected s
          else wrong_status req s
      | INFO \<Rightarrow>
          if status s = STATUS_1XX_RECEIVED \<or> status s = STATUS_WAITING_FOR_ANSWER
             \<or> status s = STATUS_ANSWERED \<or> status s = STATUS_WAITING_FOR_ACK
             \<or> status s = STATUS_CONFIRMED
          then
            (if truthy_str (m_content_type req) \<and> is_dtmf_relay (the (m_content_type req))
             then ok () (act (DTMF_init_incoming req) s)
             else if m_content_type req \<noteq> None then ok () (act (Info_init_incoming req) s)
             else ok () (act (Reply req 415 None [] None) s))
          else wrong_status req s
      | UPDATE \<Rightarrow>
          if status s = STATUS_CONFIRMED then u_receiveUpdate K req rejected s
          else wrong_status req s
      | OTHER m \<Rightarrow> ok () (act (Reply req 501 None [] None) s))"

subsection \<open>Callbacks of the transaction layer\<close>

definition error_options :: "constants \<Rightarrow> int \<Rightarrow> cause \<Rightarrow> terminate_options" where
  "error_options K code c =
     \<lparr> t_cause = Some c, t_extraHeaders = [], t_body = None,
       t_status_code = Some code, t_reason_phrase = Some (cause_text K c) \<rparr>"

definition onTransportError :: "constants \<Rightarrow> session \<Rightarrow> unit result" where
  "onTransportError K s =
     (if status s \<noteq> STATUS_TERMINATED
      then terminate K (error_options K 500 causes_CONNECTION_ERROR) s
      else ok () s)"

definition onRequestTimeout :: "constants \<Rightarrow> session \<Rightarrow> unit result" where
  "onRequestTimeout K s =
     (if status s \<noteq> STATUS_TERMINATED
      then terminate K (error_options K 408 causes_REQUEST_TIMEOUT) s
      else ok () s)"

definition onDialogError :: "constants \<Rightarrow> session \<Rightarrow> unit result" where
  "onDialogError K s =
     (if status s \<noteq> STATUS_TERMINATED
      then terminate K (error_options K 500 causes_DIALOG_ERROR) s
      else ok () s)"

definition onAuthenticated :: "message \<Rightarrow> session \<Rightarrow> session" where
  "onAuthenticated req s = s\<lparr>request := Some req\<rparr>"

subsection \<open>connect\<close>

record connect_options =
  c_eventHandlers :: "string list"
  c_extraHeaders :: "string list"
  c_data :: "string option"
  c_sessionTimersExpires :: jsnum
  c_anonymous :: bool

text \<open>
  What \<open>connect\<close> draws from outside the session: the tag of \<open>Utils.newTag()\<close> and the
  Call-ID the request constructor generates.
\<close>

record fresh =
  new_tag :: string
  new_call_id :: string

definition u_sendInitialRequest :: "string option \<Rightarrow> session \<Rightarrow> session" where
  "u_sendInitialRequest sdp s = s\<lparr>initial_request := Some sdp\<rparr>"

text \<open>
  \<open>target\<close> is \<open>None\<close> for \<open>undefined\<close>; \<open>c_data\<close> is \<open>None\<close> when \<open>options.data\<close> is
  absent or falsy.
\<close>

text \<open>What \<open>connect\<close> does once its three checks have passed.\<close>

definition connect_checked ::
    "constants \<Rightarrow> string option \<Rightarrow> connect_options \<Rightarrow> bool \<Rightarrow> fresh \<Rightarrow> session \<Rightarrow> session" where
  "connect_checked K sdp options initCallback fr s0 =
     (let s1 = (if enabled (sessionTimers s0) then
                  (case c_sessionTimersExpires options of
                     Decimal n \<Rightarrow>
                       s0\<lparr>sessionTimers := (sessionTimers s0)
                            \<lparr>defaultExpires :=
                               (if int (MIN_SESSION_EXPIRES K) \<le> n then nat n
                                else SESSION_EXPIRES K)\<rparr>\<rparr>
                   | Zero \<Rightarrow>
                       s0\<lparr>sessionTimers := (sessionTimers s0)
                            \<lparr>defaultExpires :=
                               (if MIN_SESSION_EXPIRES K = 0 then 0
                                else SESSION_EXPIRES K)\<rparr>\<rparr>
                   | _ \<Rightarrow> s0)
                else s0);
          s2 = s1\<lparr>listeners := listeners s1 @ c_eventHandlers options\<rparr>;
          s3 = s2\<lparr>from_tag := Some (new_tag fr)\<rparr>;
          anonymous = c_anonymous options;
          s4 = s3\<lparr>contact := Some (contact_toString (ua_of s3) anonymous)\<rparr>;
          extraHeaders =
            c_extraHeaders options
            @ (if anonymous
               then [''P-Preferred-Identity: '' @ configuration_uri (ua_of s4),
                     ''Privacy: id'']
               else [])
            @ [contact_header s4, ''Content-Type: application/sdp'']
            @ (if enabled (sessionTimers s4)
               then [''Session-Expires: '' @ show_nat (defaultExpires (sessionTimers s4))]
               else []);
          s5 = s4\<lparr>request :=
                    Some \<lparr> m_method = INVITE, m_status_code = 0,
                           m_call_id = new_call_id fr, m_from_tag = new_tag fr,
                           m_to_tag = [], m_body = None,
                           m_content_type = Some ''application/sdp'',
                           m_has_contact = True, m_session_expires = None,
                           m_session_expires_refresher = None,
                           m_dialog_error = None,
                           m_extraHeaders = extraHeaders \<rparr>\<rparr>;
          s6 = s5\<lparr>session_id := Some (new_call_id fr @ new_tag fr)\<rparr>;
          s7 = s6\<lparr>direction := Some ''outgoing''\<rparr>;
          s8 = (if initCallback then act InitCallback s7 else s7);
          s9 = u_newRTCSession Local s8
      in u_sendInitialRequest sdp s9)"

definition connect ::
    "constants \<Rightarrow> string option \<Rightarrow> string option \<Rightarrow> connect_options \<Rightarrow> bool \<Rightarrow> fresh
       \<Rightarrow> session \<Rightarrow> unit result" where
  "connect K target sdp options initCallback fr s =
     (let s0 = s\<lparr>data := (case c_data options of None \<Rightarrow> data s | Some d \<Rightarrow> d)\<rparr> in
      case target of
        None \<Rightarrow> throw (TypeError ''Not enough arguments'') s0
      | Some originalTarget \<Rightarrow>
          if status s0 \<noteq> STATUS_NULL then throw (InvalidStateError (status s0)) s0
          else
            (case normalizeTarget (ua_of s0) originalTarget of
               None \<Rightarrow> throw (TypeError (''Invalid target: '' @ originalTarget)) s0
             | Some uri \<Rightarrow> ok () (connect_checked K sdp options initCallback fr s0)))"

text \<open>
  The two continuations that \<open>_sendInitialRequest\<close> chains on a resolved promise; they
  run in the next tick, one after the other.
\<close>

definition sendInitialRequest_tick :: "session \<Rightarrow> session" where
  "sendInitialRequest_tick s =
     (case initial_request s of
        None \<Rightarrow> s
      | Some sdp \<Rightarrow>
          let s0 = s\<lparr>initial_request := None\<rparr> in
          if status s0 = STATUS_TERMINATED then s0
          else
            let s1 = u_connecting s0 in
            if is_canceled s1 \<or> status s1 = STATUS_TERMINATED then s1
            else
              let s2 = s1\<lparr>request := map_option (\<lambda>r. r\<lparr>m_body := sdp\<rparr>) (request s1)\<rparr>;
                  s3 = set_status STATUS_INVITE_SENT s2;
                  s4 = emit E_sending s3
              in act (RequestSender_send sdp) s4)"

subsection \<open>The promise queue\<close>

text \<open>
  What a reaction reads of its surroundings when it runs: \<open>signalingState\<close>,
  \<open>iceGatheringState\<close> and \<open>localDescription.sdp\<close> of the peer connection, and
  whether \<open>request.reply\<close> hands the response to the transport, in which case it
  calls the success callback it was given (lib/SIPMessage.js is not among the sources).
\<close>

record peer =
  signalingState_stable :: bool
  iceGatheringState_complete :: bool
  localDescription_sdp :: string
  reply_succeeds :: bool

text \<open>
  What a reaction does to the promise it resolves: it returns a value, throws, returns
  the promise of an operation of the peer connection with the reactions chained on it
  (\<open>Await\<close>), or returns a chain on a resolved promise (\<open>Chain\<close>).
\<close>

datatype outcome = Return val | Throw string | Await media_op "link list" | Chain "link list"

definition sdp_of :: "val \<Rightarrow> string option" where
  "sdp_of v = (case v of V_undefined \<Rightarrow> None | V_sdp x \<Rightarrow> Some x)"

definition sdp_text :: "val \<Rightarrow> string" where
  "sdp_text v = (case v of V_undefined \<Rightarrow> ''undefined'' | V_sdp x \<Rightarrow> x)"

text \<open>
  The text of an exception that rejects a promise; no reaction reads the text of a
  rejection that stems from an exception.
\<close>

definition exn_text :: "exn \<Rightarrow> string" where
  "exn_text e = (case e of TypeError m \<Rightarrow> ''TypeError: '' @ m
                 | InvalidStateError st \<Rightarrow> ''InvalidStateError'')"

definition caught :: "unit result \<Rightarrow> (session \<Rightarrow> outcome \<times> session) \<Rightarrow> outcome \<times> session" where
  "caught r f = (case r of (Inl e, s) \<Rightarrow> (Throw (exn_text e), s) | (Inr v, s) \<Rightarrow> f s)"

definition await :: "media_op \<Rightarrow> link list \<Rightarrow> session \<Rightarrow> outcome \<times> session" where
  "await op ls s = (Await op ls, act (Connection_call op) s)"

text \<open>
  The function \<open>sendAnswer\<close> of \<open>_receiveReinvite\<close>: the success callback of
  \<open>request.reply\<close> writes the status and sets the two timers.
\<close>

definition reinvite_sendAnswer ::
    "constants \<Rightarrow> peer \<Rightarrow> message \<Rightarrow> string option \<Rightarrow> session \<Rightarrow> session" where
  "reinvite_sendAnswer K env req desc s =
     (let hs = u_handleSessionTimersInIncomingRequest K req [contact_header s] s;
          s1 = act (Reply req 200 None (fst hs) desc) (snd hs)
      in if reply_succeeds env
         then u_setACKTimer K
                (u_setInvite2xxTimer K req desc (set_status STATUS_WAITING_FOR_ACK s1))
         else s1)"

definition bad_media_options :: terminate_options where
  "bad_media_options =
     \<lparr> t_cause = Some causes_BAD_MEDIA_DESCRIPTION, t_extraHeaders = [], t_body = None,
       t_status_code = Some 488, t_reason_phrase = None \<rparr>"

definition renegotiation_failed_options :: terminate_options where
  "renegotiation_failed_options =
     \<lparr> t_cause = Some causes_WEBRTC_ERROR, t_extraHeaders = [], t_body = None,
       t_status_code = Some 500, t_reason_phrase = Some ''Media Renegotiation Failed'' \<rparr>"

text \<open>
  \<open>onFailed\<close> of the re-offer \<open>i\<close>: \<open>eventHandlers.failed\<close> of \<open>renegotiate\<close>
  terminates the session; the session refresh has no such handler.
\<close>

definition reoffer_onFailed :: "constants \<Rightarrow> nat \<Rightarrow> session \<Rightarrow> unit result" where
  "reoffer_onFailed K i s =
     (if i < length (reoffers s) \<and> ro_renegotiate (reoffers s ! i)
      then terminate K renegotiation_failed_options s
      else ok () s)"

text \<open>
  One reaction runs: \<open>v\<close> is the value its promise was fulfilled with (for a
  \<open>then\<close>), \<open>e\<close> the text of the error it was rejected with (for a \<open>catch\<close>).
\<close>

fun run_handler ::
    "constants \<Rightarrow> peer \<Rightarrow> handler \<Rightarrow> val \<Rightarrow> string \<Rightarrow> session \<Rightarrow> outcome \<times> session" where
  "run_handler K env (H_setRemoteDescription t sdp) v e s =
     await (Op_setRemoteDescription t sdp) [] s"
| "run_handler K env (H_ack_confirmed req) v e s =
     (Return V_undefined, if is_confirmed s then s else u_confirmed Remote (Some req) s)"
| "run_handler K env H_ack_failed v e s =
     caught (terminate K bad_media_options s)
       (\<lambda>s1. (Return V_undefined, emit E_setremotedescriptionfailed s1))"
| "run_handler K env (H_createLocalDescription t) v e s =
     (Chain [Then (H_create t), Then H_setLocalDescription, Then (H_gather t)],
      s\<lparr>rtcReady := False\<rparr>)"
| "run_handler K env (H_create t) v e s =
     await (case t of Offer \<Rightarrow> Op_createOffer | Answer \<Rightarrow> Op_createAnswer)
       [Catch (H_create_failed t)] s"
| "run_handler K env (H_create_failed t) v e s =
     (Throw e, emit (case t of Offer \<Rightarrow> E_createofferfailed
                     | Answer \<Rightarrow> E_createanswerfailed) s)"
| "run_handler K env H_setLocalDescription v e s =
     await Op_setLocalDescription [Catch H_setLocalDescription_failed] s"
| "run_handler K env H_setLocalDescription_failed v e s =
     (Throw e, emit E_setlocaldescriptionfailed (s\<lparr>rtcReady := True\<rparr>))"
| "run_handler K env (H_gather t) v e s =
     (if iceGatheringState_complete env
      then (Return (V_sdp (localDescription_sdp env)),
            emit (E_sdp Local t (localDescription_sdp env)) (s\<lparr>rtcReady := True\<rparr>))
      else (Await Op_iceGathering [Then (H_ready t)], s))"
| "run_handler K env (H_ready t) v e s =
     (Return (V_sdp (localDescription_sdp env)),
      emit (E_sdp Local t (localDescription_sdp env)) (s\<lparr>rtcReady := True\<rparr>))"
| "run_handler K env (H_late_sendAnswer req) v e s =
     (Return V_undefined, reinvite_sendAnswer K env req (sdp_of v) s)"
| "run_handler K env (H_late_failed req) v e s =
     (Return V_undefined, act (Reply req 500 None [] None) s)"
| "run_handler K env (H_offer_setRemoteDescription req sdp) v e s =
     (if status s = STATUS_TERMINATED then (Throw ''Error: terminated'', s)
      else await (Op_setRemoteDescription Offer sdp)
             [Catch (H_offer_setRemoteDescription_failed req)] s)"
| "run_handler K env (H_offer_setRemoteDescription_failed req) v e s =
     (Throw ''Error: peerconnection.setRemoteDescription() failed'',
      emit E_setremotedescriptionfailed (act (Reply req 488 None [] None) s))"
| "run_handler K env (H_offer_createLocalDescription req) v e s =
     (if status s = STATUS_TERMINATED then (Throw ''Error: terminated'', s)
      else (Chain [Then (H_create Answer), Then H_setLocalDescription, Then (H_gather Answer),
                   Catch (H_offer_createLocalDescription_failed req)],
            s\<lparr>rtcReady := False\<rparr>))"
| "run_handler K env (H_offer_createLocalDescription_failed req) v e s =
     (Throw ''Error: _createLocalDescription() failed'', act (Reply req 500 None [] None) s)"
| "run_handler K env (H_offer_sendAnswer req) v e s =
     (Return V_undefined,
      if status s = STATUS_TERMINATED then s
      else if m_method req = UPDATE then update_sendAnswer K req (sdp_of v) s
      else reinvite_sendAnswer K env req (sdp_of v) s)"
| "run_handler K env H_1xx_failed v e s =
     (Return V_undefined, emit E_setremotedescriptionfailed s)"
| "run_handler K env (H_2xx_reoffer response) v e s =
     (if signalingState_stable env
      then await Op_createOffer
             [Then H_2xx_setLocalDescription, Catch (H_2xx_reoffer_failed response)] s
      else (Return V_undefined, s))"
| "run_handler K env H_2xx_setLocalDescription v e s = await Op_setLocalDescription [] s"
| "run_handler K env (H_2xx_reoffer_failed response) v e s =
     caught (u_acceptAndTerminate K response (Some 500) (Some e) s)
       (\<lambda>s1. (Return V_undefined, u_failed Local (Some response) causes_WEBRTC_ERROR s1))"
| "run_handler K env (H_2xx_setRemoteDescription response sdp) v e s =
     (Return V_undefined,
      act (Connection_call (Op_setRemoteDescription Answer sdp))
        (s\<lparr>answers := answers s @ [response]\<rparr>))"
| "run_handler K env (H_reoffer_send i meth hs) v e s =
     caught (sendRequest meth hs (sdp_of v) (emit (E_sdp Local Offer (sdp_text v)) s))
       (\<lambda>s1. (Return V_undefined, s1))"
| "run_handler K env (H_reoffer_failed i) v e s =
     caught (reoffer_onFailed K i s) (\<lambda>s1. (Return V_undefined, s1))"
| "run_handler K env (H_reoffer_succeeded i) v e s = (Return V_undefined, s)"
| "run_handler K env (H_reoffer_answer_failed i) v e s =
     caught (reoffer_onFailed K i s)
       (\<lambda>s1. (Return V_undefined, emit E_setremotedescriptionfailed s1))"

text \<open>
  The reactions \<open>ls\<close> run in order on a promise in state \<open>p\<close>, until one of them
  returns a promise or none is left. A \<open>then\<close> is passed over by a rejection and a
  \<open>catch\<close> by a fulfilment. While they run, \<open>connectionPromiseQueue\<close> holds what
  they chain on the queue; at the end the reactions left over stand before it.
\<close>

fun drain :: "constants \<Rightarrow> peer \<Rightarrow> link list \<Rightarrow> promise \<Rightarrow> session \<Rightarrow> session" where
  "drain K env [] p s = s\<lparr>queue_promise := p\<rparr>"
| "drain K env (l # ls) (Pending op) s =
     s\<lparr>connectionPromiseQueue := (l # ls) @ connectionPromiseQueue s,
       queue_promise := Pending op\<rparr>"
| "drain K env (Then h # ls) (Fulfilled v) s =
     (case run_handler K env h v [] s of
        (Return v', s') \<Rightarrow> drain K env ls (Fulfilled v') s'
      | (Throw e', s') \<Rightarrow> drain K env ls (Rejected e') s'
      | (Await op inner, s') \<Rightarrow>
          s'\<lparr>connectionPromiseQueue := inner @ ls @ connectionPromiseQueue s',
             queue_promise := Pending op\<rparr>
      | (Chain inner, s') \<Rightarrow>
          s'\<lparr>connectionPromiseQueue := inner @ ls @ connectionPromiseQueue s',
             queue_promise := Fulfilled V_undefined\<rparr>)"
| "drain K env (Catch h # ls) (Fulfilled v) s = drain K env ls (Fulfilled v) s"
| "drain K env (Aside h # ls) (Fulfilled v) s =
     drain K env ls (Fulfilled v) (snd (run_handler K env h v [] s))"
| "drain K env (Then h # ls) (Rejected e) s = drain K env ls (Rejected e) s"
| "drain K env (Catch h # ls) (Rejected e) s =
     (case run_handler K env h V_undefined e s of
        (Return v', s') \<Rightarrow> drain K env ls (Fulfilled v') s'
      | (Throw e', s') \<Rightarrow> drain K env ls (Rejected e') s'
      | (Await op inner, s') \<Rightarrow>
          s'\<lparr>connectionPromiseQueue := inner @ ls @ connectionPromiseQueue s',
             queue_promise := Pending op\<rparr>
      | (Chain inner, s') \<Rightarrow>
          s'\<lparr>connectionPromiseQueue := inner @ ls @ connectionPromiseQueue s',
             queue_promise := Fulfilled V_undefined\<rparr>)"
| "drain K env (Aside h # ls) (Rejected e) s = drain K env ls (Rejected e) s"

text \<open>The microtask queue is drained: the reactions of the settled queue run.\<close>

definition run_queue :: "constants \<Rightarrow> peer \<Rightarrow> session \<Rightarrow> session" where
  "run_queue K env s =
     drain K env (connectionPromiseQueue s) (queue_promise s) (s\<lparr>connectionPromiseQueue := []\<rparr>)"

text \<open>
  The operation of the peer connection that the queue waits for settles, and the
  reactions run. The promise of the ICE gathering is the session's own: it is resolved
  by the function \<open>ready\<close>, which the two listeners of \<open>_createLocalDescription\<close>
  call when the gathering is complete and which the subscriber of \<open>icecandidate\<close> is
  handed and may call at any time; it has no way to be rejected.
\<close>

datatype settlement = Resolved val | Failed string

definition media_settled :: "constants \<Rightarrow> peer \<Rightarrow> settlement \<Rightarrow> session \<Rightarrow> session" where
  "media_settled K env r s =
     (case queue_promise s of
        Pending op \<Rightarrow>
          (case r of
             Resolved v \<Rightarrow> run_queue K env (s\<lparr>queue_promise := Fulfilled v\<rparr>)
           | Failed e \<Rightarrow>
               if op = Op_iceGathering then s
               else run_queue K env (s\<lparr>queue_promise := Rejected e\<rparr>))
      | _ \<Rightarrow> s)"

text \<open>
  The \<open>icecandidate\<close> listener that \<open>_createLocalDescription\<close> installs while it
  waits for the gathering, called with a candidate.
\<close>

definition icecandidate :: "session \<Rightarrow> session" where
  "icecandidate s =
     (case queue_promise s of
        Pending op \<Rightarrow> if op = Op_iceGathering then emit E_icecandidate s else s
      | _ \<Rightarrow> s)"

definition u_accepted :: "originator \<Rightarrow> message option \<Rightarrow> session \<Rightarrow> session" where
  "u_accepted orig msg s = emit (E_accepted orig msg) (s\<lparr>start_time := Some (clock s)\<rparr>)"

text \<open>
  The \<open>setRemoteDescription\<close> of the oldest 2xx answer under way settles; its
  reactions are chained on its own promise, not on the queue, and an exception of the
  \<open>then\<close> is caught by the \<open>catch\<close>.
\<close>

definition answer_failed :: "constants \<Rightarrow> message \<Rightarrow> session \<Rightarrow> unit result" where
  "answer_failed K response s =
     and_then (u_acceptAndTerminate K response (Some 488) (Some ''Not Acceptable Here'') s)
       (\<lambda>_ s1. ok () (emit E_setremotedescriptionfailed
                        (u_failed Remote (Some response) causes_BAD_MEDIA_DESCRIPTION s1)))"

definition answer_settled :: "constants \<Rightarrow> bool \<Rightarrow> session \<Rightarrow> unit result" where
  "answer_settled K succeeded s =
     (case answers s of
        [] \<Rightarrow> ok () s
      | response # rest \<Rightarrow>
          if succeeded then
            (case sendRequest ACK [] None
                    (u_accepted Remote (Some response)
                       (u_handleSessionTimersInIncomingResponse K response
                          (s\<lparr>answers := rest\<rparr>))) of
               (Inl e, s2) \<Rightarrow> answer_failed K response s2
             | (Inr v, s2) \<Rightarrow> ok () (u_confirmed Local None s2))
          else answer_failed K response (s\<lparr>answers := rest\<rparr>))"

text \<open>
  The handlers \<open>onSuccessResponse\<close> and \<open>onErrorResponse\<close> that the re-offer \<open>i\<close>
  gave to \<open>sendRequest\<close>. \<open>eventHandlers.succeeded\<close> calls the \<open>done\<close> function of
  the caller of \<open>renegotiate\<close>, which is outside the session.
\<close>

definition mark_succeeded :: "nat \<Rightarrow> session \<Rightarrow> session" where
  "mark_succeeded i s =
     (if ro_method (reoffers s ! i) = UPDATE \<and> \<not> ro_sdpOffer (reoffers s ! i) then s
      else s\<lparr>reoffers := (reoffers s)[i := (reoffers s ! i)\<lparr>ro_succeeded := True\<rparr>]\<rparr>)"

definition reoffer_onSuccessResponse ::
    "constants \<Rightarrow> nat \<Rightarrow> message \<Rightarrow> session \<Rightarrow> unit result" where
  "reoffer_onSuccessResponse K i response s =
     (if length (reoffers s) \<le> i then ok () s
      else if status s = STATUS_TERMINATED then ok () (mark_succeeded i s)
      else
        and_then (if ro_method (reoffers s ! i) = INVITE then sendRequest ACK [] None s
                  else ok () s)
          (\<lambda>_ s1.
             if ro_succeeded (reoffers s1 ! i) then ok () (mark_succeeded i s1)
             else
               let s2 = u_handleSessionTimersInIncomingResponse K response s1 in
               if \<not> ro_sdpOffer (reoffers s2 ! i) then ok () (mark_succeeded i s2)
               else if \<not> truthy_str (m_body response)
                       \<or> m_content_type response \<noteq> Some ''application/sdp''
               then and_then (reoffer_onFailed K i s2) (\<lambda>_ s3. ok () (mark_succeeded i s3))
               else ok () (mark_succeeded i
                             (enqueue [Then (H_setRemoteDescription Answer
                                               (the (m_body response))),
                                       Then (H_reoffer_succeeded i),
                                       Catch (H_reoffer_answer_failed i)]
                                (emit (E_sdp Remote Answer (the (m_body response))) s2)))))"

definition reoffer_onErrorResponse :: "constants \<Rightarrow> nat \<Rightarrow> session \<Rightarrow> unit result" where
  "reoffer_onErrorResponse K i s = reoffer_onFailed K i s"

subsection \<open>Timer firings and the step function\<close>

definition run_callback :: "constants \<Rightarrow> callback \<Rightarrow> session \<Rightarrow> unit result" where
  "run_callback K cb s =
     (case cb of
        CB_invite2xxRetransmission req body timeout \<Rightarrow>
          ok () (invite2xxRetransmission K req body timeout s)
      | CB_ackTimer \<Rightarrow> ackTimer_fired s
      | CB_sessionRefresh \<Rightarrow> sessionRefresh_fired s
      | CB_sessionExpired \<Rightarrow> sessionExpired_fired K s
      | CB_sendDTMF position duration interToneGap options \<Rightarrow>
          ok () (u_sendDTMF position duration interToneGap options s))"

text \<open>
  The timer with handle \<open>h\<close> fires: it leaves the table and its callback runs. A handle
  that is not pending (never set, cleared, or fired before) does nothing.
\<close>

definition fire_timer :: "constants \<Rightarrow> nat \<Rightarrow> session \<Rightarrow> unit result" where
  "fire_timer K h s =
     (case find (\<lambda>p. fst p = h) (pending s) of
        None \<Rightarrow> ok () s
      | Some p \<Rightarrow>
          run_callback K (fst (snd p)) (s\<lparr>pending := filter (\<lambda>q. fst q \<noteq> h) (pending s)\<rparr>))"

text \<open>
  What can happen to a session: a public operation, a callback of the transaction
  layer, an incoming request or response, the tick after \<open>connect\<close>, a timer firing, a
  failed DTMF request, a drain of the microtask queue, the settling of an operation of
  the peer connection, an ICE candidate, a response to a re-offer.
\<close>

datatype input =
    In_connect "string option" "string option" connect_options bool fresh
  | In_terminate terminate_options
  | In_sendDTMF jsval dtmf_options
  | In_sendInfo string "string option"
  | In_renegotiate renegotiate_options
  | In_sendRequest sip_method "string list" "string option"
  | In_set_data string
  | In_receiveRequest message "reject_options option"
  | In_receiveInviteResponse message
  | In_onTransportError
  | In_onRequestTimeout
  | In_onDialogError
  | In_onAuthenticated message
  | In_tick
  | In_timer nat
  | In_dtmf_failed
  | In_microtasks peer
  | In_settled peer settlement
  | In_icecandidate
  | In_answer_settled bool
  | In_reoffer_onSuccessResponse nat message
  | In_reoffer_onErrorResponse nat

definition forget :: "'a result \<Rightarrow> unit result" where
  "forget r = (case fst r of Inl e \<Rightarrow> (Inl e, snd r) | Inr v \<Rightarrow> (Inr (), snd r))"

definition step :: "constants \<Rightarrow> input \<Rightarrow> session \<Rightarrow> unit result" where
  "step K i s =
     (case i of
        In_connect target sdp options initCallback fr \<Rightarrow>
          connect K target sdp options initCallback fr s
      | In_terminate options \<Rightarrow> terminate K options s
      | In_sendDTMF tns options \<Rightarrow> sendDTMF K tns options s
      | In_sendInfo contentType body \<Rightarrow> sendInfo contentType body s
      | In_renegotiate options \<Rightarrow> forget (renegotiate options s)
      | In_sendRequest meth extraHeaders body \<Rightarrow> sendRequest meth extraHeaders body s
      | In_set_data d \<Rightarrow> ok () (s\<lparr>data := d\<rparr>)
      | In_receiveRequest req rejected \<Rightarrow> receiveRequest K req rejected s
      | In_receiveInviteResponse response \<Rightarrow> u_receiveInviteResponse K response s
      | In_onTransportError \<Rightarrow> onTransportError K s
      | In_onRequestTimeout \<Rightarrow> onRequestTimeout K s
      | In_onDialogError \<Rightarrow> onDialogError K s
      | In_onAuthenticated req \<Rightarrow> ok () (onAuthenticated req s)
      | In_tick \<Rightarrow> ok () (sendInitialRequest_tick s)
      | In_timer h \<Rightarrow> fire_timer K h s
      | In_dtmf_failed \<Rightarrow> ok () (dtmf_onFailed s)
      | In_microtasks env \<Rightarrow> ok () (run_queue K env s)
      | In_settled env r \<Rightarrow> ok () (media_settled K env r s)
      | In_icecandidate \<Rightarrow> ok () (icecandidate s)
      | In_answer_settled succeeded \<Rightarrow> answer_settled K succeeded s
      | In_reoffer_onSuccessResponse i response \<Rightarrow> reoffer_onSuccessResponse K i response s
      | In_reoffer_onErrorResponse i \<Rightarrow> reoffer_onErrorResponse K i s)"

text \<open>A trace of inputs; an exception ends the input that threw, not the trace.\<close>

fun run :: "constants \<Rightarrow> input list \<Rightarrow> session \<Rightarrow> session" where
  "run K [] s = s"
| "run K (i # is) s = run K is (snd (step K i s))"

text \<open>
  \<open>k\<close> firings in a row of the 2xx-retransmission timer, each of the timer whose handle
  the session holds in \<open>_timers.invite2xxTimer\<close>.
\<close>

fun retransmissions :: "constants \<Rightarrow> nat \<Rightarrow> session \<Rightarrow> session" where
  "retransmissions K 0 s = s"
| "retransmissions K (Suc k) s =
     (case invite2xxTimer (timers (retransmissions K k s)) of
        None \<Rightarrow> retransmissions K k s
      | Some h \<Rightarrow> snd (fire_timer K h (retransmissions K k s)))"

text \<open>
  Handles are drawn from a counter, so in a session built by the operations every
  pending handle is below \<open>next_handle\<close>.
\<close>

definition handles_fresh :: "session \<Rightarrow> bool" where
  "handles_fresh s = (\<forall>h \<in> handles s. h < next_handle s)"

subsection \<open>Example values\<close>

text \<open>
  Concrete values at which the theorems below are instantiated. Modelled from the spec:
  the timer constants are the RFC 3261 defaults the spec names (T1 = 500 ms, T2 = 4 s,
  Timer H = 64 T1); the other constants (lib/Constants.js, lib/RTCSession/DTMF.js) are
  examples, read only by the theorems stated at these values.
\<close>

definition example_constants :: constants where
  "example_constants =
     \<lparr> T1 = 500, T2 = 4000, TIMER_H = 32000, MIN_SESSION_EXPIRES = 90, SESSION_EXPIRES = 90,
       REASON_PHRASE = (\<lambda>n. if n = 400 then Some ''Bad Request'' else None),
       cause_text = (\<lambda>c. []), sipErrorCause = (\<lambda>n. causes_REJECTED),
       DEFAULT_DURATION = 100, MIN_DURATION = 70, MAX_DURATION = 6000,
       DEFAULT_INTER_TONE_GAP = 500, MIN_INTER_TONE_GAP = 50 \<rparr>"

definition example_ua :: ua where
  "example_ua =
     \<lparr> session_timers = True, session_timers_refresh_method = UPDATE,
       normalizeTarget = (\<lambda>t. if t = [] then None else Some t),
       contact_toString = (\<lambda>a. ''<sip:alice@example.invalid>''),
       configuration_uri = ''sip:alice@example.invalid'' \<rparr>"

definition new_session :: session where
  "new_session = constructor example_constants example_ua"

definition no_options :: terminate_options where
  "no_options = \<lparr> t_cause = None, t_extraHeaders = [], t_body = None,
                  t_status_code = None, t_reason_phrase = None \<rparr>"

definition example_dialog :: dialog where
  "example_dialog =
     \<lparr> dlg_id = \<lparr> call_id = ''c1'', local_tag = ''a'', remote_tag = ''b'' \<rparr>,
       dlg_state = Dialog_STATUS_CONFIRMED, uac_pending_reply = False,
       uas_pending_reply = False \<rparr>"

definition example_message :: "sip_method \<Rightarrow> nat \<Rightarrow> message" where
  "example_message meth code =
     \<lparr> m_method = meth, m_status_code = code, m_call_id = ''c1'', m_from_tag = ''a'',
       m_to_tag = ''b'', m_body = None, m_content_type = None, m_has_contact = False,
       m_session_expires = None, m_session_expires_refresher = None,
       m_dialog_error = None, m_extraHeaders = [] \<rparr>"

definition waiting_session :: session where
  "waiting_session =
     new_session\<lparr>status := STATUS_WAITING_FOR_ANSWER, request := Some (example_message INVITE 0)\<rparr>"

definition confirmed_session :: session where
  "confirmed_session = new_session\<lparr>status := STATUS_CONFIRMED, dialog := Some example_dialog\<rparr>"

definition waiting_for_ack_session :: session where
  "waiting_for_ack_session =
     confirmed_session
       \<lparr>status := STATUS_WAITING_FOR_ACK, late_sdp := True,
        timers := \<lparr> ackTimer = Some 0, expiresTimer = None, invite2xxTimer = Some 1,
                    userNoAnswerTimer = None \<rparr>,
        pending := [(0, CB_ackTimer, 32000),
                    (1, CB_invite2xxRetransmission (example_message INVITE 0) (Some ''v=0'') 500,
                     500)],
        next_handle := 2\<rparr>"

definition update_options :: renegotiate_options where
  "update_options = \<lparr> r_useUpdate = True, r_extraHeaders = [] \<rparr>"




definition default_dtmf_options :: dtmf_options where
  "default_dtmf_options = \<lparr> o_duration = NoNumber, o_interToneGap = NoNumber,
                             o_extraHeaders = [], o_duration_text = ''undefined'',
                             o_interToneGap_text = ''undefined'' \<rparr>"

definition example_connect_options :: connect_options where
  "example_connect_options =
     \<lparr> c_eventHandlers = [], c_extraHeaders = [], c_data = Some ''app-data'',
       c_sessionTimersExpires = NoNumber, c_anonymous = False \<rparr>"

definition example_fresh :: fresh where
  "example_fresh = \<lparr> new_tag = ''a'', new_call_id = ''c1'' \<rparr>"

text \<open>\<open>connect("sip:bob@example.invalid", "v=0", {data})\<close> and the tick after it.\<close>

definition example_connect :: "input list" where
  "example_connect =
     [In_connect (Some ''sip:bob@example.invalid'') (Some ''v=0'') example_connect_options
        False example_fresh,
      In_tick]"

text \<open>
  A 200 response to the INVITE without a body, and one with a body, from which no
  dialog can be built (\<open>new Dialog(...)\<close> reports an error).
\<close>

definition bad_200 :: message where
  "bad_200 = (example_message INVITE 200)\<lparr>m_dialog_error := Some ''no Contact header''\<rparr>"

definition bad_200_sdp :: message where
  "bad_200_sdp = bad_200\<lparr>m_body := Some ''v=0''\<rparr>"

text \<open>
  The peer connection while it gathers ICE candidates, with a transport that sends the
  replies it is given.
\<close>

definition example_peer :: peer where
  "example_peer =
     \<lparr> signalingState_stable = True, iceGatheringState_complete = False,
       localDescription_sdp = ''v=0'', reply_succeeds = True \<rparr>"

text \<open>
  A re-INVITE without SDP arrives; the session creates an offer, sets it as its local
  description and waits for the ICE gathering; a candidate is reported; the peer's BYE
  arrives; then the gathering ends (it completes, or the subscriber of \<open>icecandidate\<close>
  calls the \<open>ready\<close> function it was given).
\<close>

definition late_offer_then_bye :: "input list" where
  "late_offer_then_bye =
     [In_receiveRequest (example_message INVITE 0) None,
      In_microtasks example_peer,
      In_microtasks example_peer,
      In_settled example_peer (Resolved (V_sdp ''v=0'')),
      In_settled example_peer (Resolved V_undefined),
      In_icecandidate,
      In_receiveRequest (example_message BYE 0) None,
      In_settled example_peer (Resolved V_undefined)]"

section \<open>Properties\<close>

subsection \<open>The trace projections and the fields the basic operations keep\<close>

lemma events_of_append: "events_of (xs @ ys) = events_of xs @ events_of ys"
  by (induction xs rule: events_of.induct) simp_all

lemma statuses_of_append: "statuses_of (xs @ ys) = statuses_of xs @ statuses_of ys"
  by (induction xs rule: statuses_of.induct) simp_all

lemma sent_of_append: "sent_of (xs @ ys) = sent_of xs @ sent_of ys"
  by (simp add: sent_of_def)

lemma sent_of_Nil: "sent_of [] = []"
  by (simp add: sent_of_def)

lemma sent_of_Cons: "sent_of (a # xs) = (if is_sent a then a # sent_of xs else sent_of xs)"
  by (simp add: sent_of_def)

lemma events_of_Dialog_terminate: "events_of (map (\<lambda>p. Dialog_terminate (f p)) xs) = []"
  by (induction xs) simp_all

lemma statuses_of_Dialog_terminate: "statuses_of (map (\<lambda>p. Dialog_terminate (f p)) xs) = []"
  by (induction xs) simp_all

lemma sent_of_Dialog_terminate: "sent_of (map (\<lambda>p. Dialog_terminate (f p)) xs) = []"
  by (induction xs) (simp_all add: sent_of_def)

lemma act_fields [simp]:
  "status (act a s) = status s"
  "dialog (act a s) = dialog s"
  "earlyDialogs (act a s) = earlyDialogs s"
  "pending (act a s) = pending s"
  "next_handle (act a s) = next_handle s"
  "timers (act a s) = timers s"
  "sessionTimers (act a s) = sessionTimers s"
  "is_canceled (act a s) = is_canceled s"
  "request (act a s) = request s"
  "tones (act a s) = tones s"
  "contact (act a s) = contact s"
  "trace (act a s) = trace s @ [a]"
  "cancel_reason (act a s) = cancel_reason s"
  by (simp_all add: act_def)

lemma emit_fields [simp]:
  "status (emit e s) = status s"
  "dialog (emit e s) = dialog s"
  "earlyDialogs (emit e s) = earlyDialogs s"
  "pending (emit e s) = pending s"
  "next_handle (emit e s) = next_handle s"
  "timers (emit e s) = timers s"
  "sessionTimers (emit e s) = sessionTimers s"
  "is_canceled (emit e s) = is_canceled s"
  "request (emit e s) = request s"
  "tones (emit e s) = tones s"
  "contact (emit e s) = contact s"
  "trace (emit e s) = trace s @ [Emit e]"
  "cancel_reason (emit e s) = cancel_reason s"
  by (simp_all add: emit_def)

lemma set_status_fields [simp]:
  "status (set_status st s) = st"
  "dialog (set_status st s) = dialog s"
  "earlyDialogs (set_status st s) = earlyDialogs s"
  "pending (set_status st s) = pending s"
  "next_handle (set_status st s) = next_handle s"
  "timers (set_status st s) = timers s"
  "sessionTimers (set_status st s) = sessionTimers s"
  "is_canceled (set_status st s) = is_canceled s"
  "request (set_status st s) = request s"
  "tones (set_status st s) = tones s"
  "contact (set_status st s) = contact s"
  "trace (set_status st s) = trace s @ [StatusSet st]"
  "cancel_reason (set_status st s) = cancel_reason s"
  by (simp_all add: set_status_def)

lemma clearTimeout_fields [simp]:
  "status (clearTimeout h s) = status s"
  "dialog (clearTimeout h s) = dialog s"
  "earlyDialogs (clearTimeout h s) = earlyDialogs s"
  "next_handle (clearTimeout h s) = next_handle s"
  "timers (clearTimeout h s) = timers s"
  "sessionTimers (clearTimeout h s) = sessionTimers s"
  "is_canceled (clearTimeout h s) = is_canceled s"
  "request (clearTimeout h s) = request s"
  "tones (clearTimeout h s) = tones s"
  "contact (clearTimeout h s) = contact s"
  "trace (clearTimeout h s) = trace s"
  "cancel_reason (clearTimeout h s) = cancel_reason s"
  by (simp_all add: clearTimeout_def split: option.splits)

lemma terminate_early_dialogs_fields [simp]:
  "status (terminate_early_dialogs s) = status s"
  "dialog (terminate_early_dialogs s) = dialog s"
  "earlyDialogs (terminate_early_dialogs s) = []"
  "pending (terminate_early_dialogs s) = pending s"
  "next_handle (terminate_early_dialogs s) = next_handle s"
  "timers (terminate_early_dialogs s) = timers s"
  "sessionTimers (terminate_early_dialogs s) = sessionTimers s"
  "is_canceled (terminate_early_dialogs s) = is_canceled s"
  "request (terminate_early_dialogs s) = request s"
  "tones (terminate_early_dialogs s) = tones s"
  "contact (terminate_early_dialogs s) = contact s"
  "cancel_reason (terminate_early_dialogs s) = cancel_reason s"
  "trace (terminate_early_dialogs s)
     = trace s @ map (\<lambda>p. Dialog_terminate (dlg_id (snd p))) (earlyDialogs s)"
  by (simp_all add: terminate_early_dialogs_def)

lemma enqueue_fields [simp]:
  "status (enqueue t s) = status s"
  "dialog (enqueue t s) = dialog s"
  "earlyDialogs (enqueue t s) = earlyDialogs s"
  "pending (enqueue t s) = pending s"
  "next_handle (enqueue t s) = next_handle s"
  "timers (enqueue t s) = timers s"
  "sessionTimers (enqueue t s) = sessionTimers s"
  "is_canceled (enqueue t s) = is_canceled s"
  "request (enqueue t s) = request s"
  "tones (enqueue t s) = tones s"
  "contact (enqueue t s) = contact s"
  "trace (enqueue t s) = trace s"
  by (simp_all add: enqueue_def)

lemma handles_clearTimeout: "handles (clearTimeout h s) = handles s - set_option h"
  by (auto simp add: handles_def clearTimeout_def split: option.splits)

lemma handles_same [simp]:
  "handles (act a s) = handles s"
  "handles (emit e s) = handles s"
  "handles (set_status st s) = handles s"
  "handles (terminate_early_dialogs s) = handles s"
  "handles (enqueue t s) = handles s"
  by (simp_all add: handles_def)

lemma handles_upd [simp]:
  "handles (s\<lparr>status := a\<rparr>) = handles s"
  "handles (s\<lparr>trace := b\<rparr>) = handles s"
  "handles (s\<lparr>is_canceled := c\<rparr>) = handles s"
  "handles (s\<lparr>cancel_reason := d\<rparr>) = handles s"
  "handles (s\<lparr>end_time := e\<rparr>) = handles s"
  "handles (s\<lparr>is_confirmed := f\<rparr>) = handles s"
  "handles (s\<lparr>dialog := g\<rparr>) = handles s"
  "handles (s\<lparr>tones := i\<rparr>) = handles s"
  by (simp_all add: handles_def)

subsection \<open>Closing\<close>

lemma status_u_close: "status (u_close s) = STATUS_TERMINATED"
  by (simp add: u_close_def Let_def split: option.splits)

lemma u_close_terminated: "status s = STATUS_TERMINATED \<Longrightarrow> u_close s = s"
  by (simp add: u_close_def)

lemma trace_u_close:
  "trace (u_close s) =
     (if status s = STATUS_TERMINATED then trace s
      else trace s @ [StatusSet STATUS_TERMINATED]
             @ (case dialog s of None \<Rightarrow> [] | Some d \<Rightarrow> [Dialog_terminate (dlg_id d)])
             @ map (\<lambda>p. Dialog_terminate (dlg_id (snd p))) (earlyDialogs s)
             @ [UA_destroyRTCSession])"
  by (simp add: u_close_def Let_def split: option.splits)

lemma events_u_close: "events_of (trace (u_close s)) = events_of (trace s)"
  by (simp add: trace_u_close events_of_append events_of_Dialog_terminate split: option.splits)

lemma sent_u_close: "sent_of (trace (u_close s)) = sent_of (trace s)"
  by (simp add: trace_u_close sent_of_append sent_of_Dialog_terminate sent_of_Nil sent_of_Cons
      split: option.splits)

lemma statuses_u_close:
  "statuses_of (trace (u_close s)) =
     statuses_of (trace s) @ (if status s = STATUS_TERMINATED then [] else [STATUS_TERMINATED])"
  by (simp add: trace_u_close statuses_of_append statuses_of_Dialog_terminate
      split: option.splits)

lemma handles_u_close: "handles (u_close s) \<subseteq> handles s"
  by (auto simp add: u_close_def Let_def handles_clearTimeout split: option.splits)

lemma u_close_fields [simp]:
  "is_canceled (u_close s) = is_canceled s"
  "request (u_close s) = request s"
  "tones (u_close s) = tones s"
  "next_handle (u_close s) = next_handle s"
  "timers (u_close s) = timers s"
  "contact (u_close s) = contact s"
  "cancel_reason (u_close s) = cancel_reason s"
  by (simp_all add: u_close_def Let_def split: option.splits)

lemma u_failed_fields [simp]:
  "status (u_failed a b c s) = STATUS_TERMINATED"
  "is_canceled (u_failed a b c s) = is_canceled s"
  "request (u_failed a b c s) = request s"
  "tones (u_failed a b c s) = tones s"
  "cancel_reason (u_failed a b c s) = cancel_reason s"
  "trace (u_failed a b c s) = trace (u_close s) @ [Emit (E_failed a b c)]"
  by (simp_all add: u_failed_def status_u_close)

lemma u_ended_fields [simp]:
  "status (u_ended a b c s) = STATUS_TERMINATED"
  "is_canceled (u_ended a b c s) = is_canceled s"
  "request (u_ended a b c s) = request s"
  "tones (u_ended a b c s) = tones s"
  by (simp_all add: u_ended_def status_u_close)

lemma events_u_failed:
  "events_of (trace (u_failed a b c s)) = events_of (trace s) @ [E_failed a b c]"
  by (simp add: u_failed_def events_of_append events_u_close)

lemma sent_u_failed: "sent_of (trace (u_failed a b c s)) = sent_of (trace s)"
  by (simp add: u_failed_def sent_of_append sent_u_close sent_of_Nil sent_of_Cons)

lemma statuses_u_failed:
  "statuses_of (trace (u_failed a b c s)) =
     statuses_of (trace s) @ (if status s = STATUS_TERMINATED then [] else [STATUS_TERMINATED])"
  by (simp add: u_failed_def statuses_of_append statuses_u_close)

lemma trace_end_time [simp]:
  "trace (s\<lparr>end_time := e\<rparr>) = trace s"
  "status (s\<lparr>end_time := e\<rparr>) = status s"
  by simp_all

lemma events_u_ended:
  "events_of (trace (u_ended a b c s)) = events_of (trace s) @ [E_ended a b c]"
  by (simp add: u_ended_def events_of_append events_u_close)

lemma sent_u_ended: "sent_of (trace (u_ended a b c s)) = sent_of (trace s)"
  by (simp add: u_ended_def sent_of_append sent_u_close sent_of_Nil sent_of_Cons)

lemma statuses_u_ended:
  "statuses_of (trace (u_ended a b c s)) =
     statuses_of (trace s) @ (if status s = STATUS_TERMINATED then [] else [STATUS_TERMINATED])"
  by (simp add: u_ended_def statuses_of_append statuses_u_close)

lemma handles_u_failed: "handles (u_failed a b c s) \<subseteq> handles s"
  using handles_u_close [of s] by (simp add: u_failed_def)

lemma handles_u_ended: "handles (u_ended a b c s) \<subseteq> handles s"
  using handles_u_close [of "s\<lparr>end_time := Some (clock s)\<rparr>"] by (simp add: u_ended_def)

subsection \<open>terminate, by status\<close>

lemma terminate_TERMINATED:
  "status s = STATUS_TERMINATED
   \<Longrightarrow> terminate K options s = (Inl (InvalidStateError STATUS_TERMINATED), s)"
  by (simp add: terminate_def throw_def)

lemma terminate_invalid_code:
  "status s \<in> {STATUS_NULL, STATUS_INVITE_SENT, STATUS_1XX_RECEIVED, STATUS_WAITING_FOR_ACK,
                 STATUS_CONFIRMED}
   \<Longrightarrow> invalid_status_code (t_status_code options)
   \<Longrightarrow> terminate K options s
       = (Inl (TypeError (''Invalid status_code: '' @ show_int (the (t_status_code options)))), s)"
  by (auto simp add: terminate_def throw_def Let_def)

lemma terminate_before_send:
  "status s = STATUS_NULL \<or> status s = STATUS_INVITE_SENT
   \<Longrightarrow> \<not> invalid_status_code (t_status_code options)
   \<Longrightarrow> terminate K options s
       = (Inr (), u_failed Local None causes_CANCELED
                    (set_status STATUS_CANCELED
                       (s\<lparr>is_canceled := True, cancel_reason := cancel_reason_for K options\<rparr>)))"
  by (auto simp add: terminate_def ok_def and_then_def Let_def)

lemma terminate_1XX_RECEIVED:
  "status s = STATUS_1XX_RECEIVED
   \<Longrightarrow> \<not> invalid_status_code (t_status_code options)
   \<Longrightarrow> terminate K options s
       = (case request s of
            None \<Rightarrow> (Inl (TypeError ''Cannot read properties of null''), s)
          | Some r \<Rightarrow>
              (Inr (), u_failed Local None causes_CANCELED
                         (set_status STATUS_CANCELED
                            (act (Request_cancel (cancel_reason_for K options)) s))))"
  by (simp add: terminate_def ok_def throw_def and_then_def Let_def request_cancel_def
      split: option.splits)

lemma terminate_established:
  "status s = STATUS_WAITING_FOR_ACK \<or> status s = STATUS_CONFIRMED
   \<Longrightarrow> \<not> invalid_status_code (t_status_code options)
   \<Longrightarrow> terminate K options s
       = (case dialog s of
            None \<Rightarrow> (Inl (TypeError ''Cannot read properties of undefined''), s)
          | Some d \<Rightarrow>
              (Inr (), u_ended Local None
                         (case t_cause options of None \<Rightarrow> causes_BYE | Some c \<Rightarrow> c)
                         (act (Dialog_sendRequest BYE (bye_headers K options) (t_body options))
                            s)))"
  by (auto simp add: terminate_def ok_def throw_def and_then_def Let_def sendRequest_def
      split: option.splits)

lemma terminate_no_case:
  "status s \<in> {STATUS_INVITE_RECEIVED, STATUS_WAITING_FOR_ANSWER, STATUS_ANSWERED,
                 STATUS_CANCELED}
   \<Longrightarrow> terminate K options s = (Inr (), s)"
  by (auto simp add: terminate_def ok_def Let_def)

lemma terminate_shape:
  "snd (terminate K options s) = s
   \<or> snd (terminate K options s)
        = u_failed Local None causes_CANCELED
            (set_status STATUS_CANCELED
               (s\<lparr>is_canceled := True, cancel_reason := cancel_reason_for K options\<rparr>))
   \<or> snd (terminate K options s)
        = u_failed Local None causes_CANCELED
            (set_status STATUS_CANCELED (act (Request_cancel (cancel_reason_for K options)) s))
   \<or> snd (terminate K options s)
        = u_ended Local None (case t_cause options of None \<Rightarrow> causes_BYE | Some c \<Rightarrow> c)
            (act (Dialog_sendRequest BYE (bye_headers K options) (t_body options)) s)"
proof (cases "invalid_status_code (t_status_code options)")
  case True
  then show ?thesis
    by (cases "status s")
       (simp_all add: terminate_invalid_code terminate_TERMINATED terminate_no_case)
next
  case False
  then show ?thesis
    by (cases "status s")
       (simp_all add: terminate_before_send terminate_1XX_RECEIVED terminate_established
          terminate_TERMINATED terminate_no_case split: option.splits)
qed

subsection \<open>terminate where its switch has no case\<close>

text \<open>
  C10. \<open>terminate()\<close> called while the status is INVITE_RECEIVED, WAITING_FOR_ANSWER or
  ANSWERED returns normally and leaves the session as it was: the status, every other
  field and the trace (so no CANCEL, BYE or response is sent and no event is emitted).
\<close>

theorem terminate_unhandled_status_noop:
  assumes "status s = STATUS_INVITE_RECEIVED \<or> status s = STATUS_WAITING_FOR_ANSWER
             \<or> status s = STATUS_ANSWERED"
  shows "terminate K options s = (Inr (), s)"
  using assms by (auto simp add: terminate_def ok_def Let_def)

theorem terminate_unhandled_status_noop_witness:
  "terminate example_constants no_options (new_session\<lparr>status := STATUS_WAITING_FOR_ANSWER\<rparr>)
     = (Inr (), new_session\<lparr>status := STATUS_WAITING_FOR_ANSWER\<rparr>)"
  using terminate_unhandled_status_noop
          [of "new_session\<lparr>status := STATUS_WAITING_FOR_ANSWER\<rparr>" example_constants no_options]
  by simp

subsection \<open>renegotiate\<close>

text \<open>
  C7. \<open>renegotiate(options, done)\<close> returns false and leaves the session as it was (so it
  sends nothing) whenever \<open>rtcReady\<close> is false, or there is no confirmed dialog, or the
  confirmed dialog has \<open>uac_pending_reply\<close> or \<open>uas_pending_reply\<close> set; and when it
  returns true, \<open>rtcReady\<close> holds and there is a confirmed dialog with neither flag set.
\<close>

theorem renegotiate_eligibility:
  "(\<not> rtcReady s \<or> dialog s = None
      \<or> (\<exists>d. dialog s = Some d \<and> (uac_pending_reply d \<or> uas_pending_reply d))
    \<longrightarrow> renegotiate options s = (Inr False, s))
   \<and> (fst (renegotiate options s) = Inr True
    \<longrightarrow> rtcReady s
        \<and> (\<exists>d. dialog s = Some d \<and> \<not> uac_pending_reply d \<and> \<not> uas_pending_reply d))"
  by (auto simp add: renegotiate_def u_isReadyToReOffer_def ok_def and_then_def throw_def
      u_sendUpdate_def Let_def split: option.splits if_splits)

theorem renegotiate_eligibility_witness:
  "renegotiate update_options new_session = (Inr False, new_session)
   \<and> fst (renegotiate update_options confirmed_session) = Inr True
   \<and> rtcReady confirmed_session
   \<and> dialog confirmed_session = Some example_dialog
   \<and> \<not> uac_pending_reply example_dialog \<and> \<not> uas_pending_reply example_dialog"
  using renegotiate_eligibility [of new_session update_options]
    renegotiate_eligibility [of confirmed_session update_options]
  by (simp add: new_session_def constructor_def confirmed_session_def example_dialog_def
      renegotiate_def u_isReadyToReOffer_def u_sendUpdate_def and_then_def ok_def Let_def)

subsection \<open>An incoming CANCEL\<close>

text \<open>
  C3. For an incoming CANCEL: when the status is WAITING_FOR_ANSWER or ANSWERED (and the
  session holds the pending INVITE in \<open>_request\<close>), the status is set to CANCELED, 487 is
  replied to the pending INVITE and \<open>failed\<close> is emitted with originator remote and cause
  CANCELED; \<open>_failed\<close> closes the session before it emits, so the write of CANCELED is
  followed by a write of TERMINATED, the event is the last thing that happens, and
  TERMINATED is the status when \<open>receiveRequest\<close> returns. In every other status the
  CANCEL leaves the session as it was: no reply, no event, no change of any field.
\<close>

theorem cancel_request:
  assumes "m_method req = CANCEL"
  shows "((status s = STATUS_WAITING_FOR_ANSWER \<or> status s = STATUS_ANSWERED)
            \<and> request s \<noteq> None
          \<longrightarrow> fst (receiveRequest K req rejected s) = Inr ()
              \<and> statuses_of (trace (snd (receiveRequest K req rejected s)))
                  = statuses_of (trace s) @ [STATUS_CANCELED, STATUS_TERMINATED]
              \<and> status (snd (receiveRequest K req rejected s)) = STATUS_TERMINATED
              \<and> sent_of (trace (snd (receiveRequest K req rejected s)))
                  = sent_of (trace s) @ [Request_reply 487]
              \<and> events_of (trace (snd (receiveRequest K req rejected s)))
                  = events_of (trace s) @ [E_failed Remote (Some req) causes_CANCELED]
              \<and> last (trace (snd (receiveRequest K req rejected s)))
                  = Emit (E_failed Remote (Some req) causes_CANCELED))
       \<and> (status s \<noteq> STATUS_WAITING_FOR_ANSWER \<and> status s \<noteq> STATUS_ANSWERED
          \<longrightarrow> receiveRequest K req rejected s = (Inr (), s))"
  using assms
  by (auto simp add: receiveRequest_def ok_def and_then_def request_reply_def u_failed_def
      emit_def act_def set_status_def events_of_append statuses_of_append sent_of_append
      events_u_close sent_u_close statuses_u_close status_u_close sent_of_Nil sent_of_Cons)

theorem cancel_request_witness:
  "fst (receiveRequest example_constants (example_message CANCEL 0) None waiting_session) = Inr ()
   \<and> statuses_of (trace (snd (receiveRequest example_constants (example_message CANCEL 0) None
                                 waiting_session)))
       = [STATUS_CANCELED, STATUS_TERMINATED]
   \<and> status (snd (receiveRequest example_constants (example_message CANCEL 0) None
                     waiting_session))
       = STATUS_TERMINATED
   \<and> sent_of (trace (snd (receiveRequest example_constants (example_message CANCEL 0) None
                             waiting_session)))
       = [Request_reply 487]
   \<and> events_of (trace (snd (receiveRequest example_constants (example_message CANCEL 0) None
                               waiting_session)))
       = [E_failed Remote (Some (example_message CANCEL 0)) causes_CANCELED]
   \<and> last (trace (snd (receiveRequest example_constants (example_message CANCEL 0) None
                         waiting_session)))
       = Emit (E_failed Remote (Some (example_message CANCEL 0)) causes_CANCELED)
   \<and> receiveRequest example_constants (example_message CANCEL 0) None confirmed_session
       = (Inr (), confirmed_session)"
proof -
  have m: "m_method (example_message CANCEL 0) = CANCEL"
    by (simp add: example_message_def)
  show ?thesis
    using cancel_request [OF m, of waiting_session example_constants None]
      cancel_request [OF m, of confirmed_session example_constants None]
    by (simp add: waiting_session_def confirmed_session_def new_session_def constructor_def
        sent_of_Nil)
qed

text \<open>
  C3 as stated, with CANCELED as the status the session is left in, fails: a CANCEL
  received in WAITING_FOR_ANSWER leaves the status TERMINATED.
\<close>

theorem cancel_leaves_terminated:
  "status waiting_session = STATUS_WAITING_FOR_ANSWER
   \<and> status (snd (receiveRequest example_constants (example_message CANCEL 0) None
                     waiting_session))
       = STATUS_TERMINATED
   \<and> status (snd (receiveRequest example_constants (example_message CANCEL 0) None
                     waiting_session))
       \<noteq> STATUS_CANCELED"
  by (simp add: receiveRequest_def example_message_def waiting_session_def new_session_def
      constructor_def ok_def and_then_def request_reply_def)

subsection \<open>An incoming ACK\<close>

lemma handles_terminate: "handles (snd (terminate K options s)) \<subseteq> handles s"
proof -
  have a: "handles (u_failed Local None causes_CANCELED s') \<subseteq> handles s"
    if "handles s' = handles s" for s'
    using handles_u_failed [of Local None causes_CANCELED s'] that by simp
  have b: "handles (u_ended Local None c s') \<subseteq> handles s"
    if "handles s' = handles s" for s' c
    using handles_u_ended [of Local None c s'] that by simp
  show ?thesis
    using terminate_shape [of K options s] by (elim disjE) (simp_all add: a b)
qed

lemma ack_not_waiting:
  assumes "m_method req = ACK" "status s \<noteq> STATUS_WAITING_FOR_ACK"
  shows "receiveRequest K req rejected s = (Inr (), emit (E_ackReceived req) s)"
  using assms by (simp add: receiveRequest_def ok_def Let_def)

lemma ack_waiting_unfold:
  assumes "m_method req = ACK" "status s = STATUS_WAITING_FOR_ACK"
  shows "receiveRequest K req rejected s =
     (let s4 = clearTimeout (invite2xxTimer (timers s))
                 (clearTimeout (ackTimer (timers s))
                    (set_status STATUS_CONFIRMED (emit (E_ackReceived req) s)))
      in if late_sdp s then
           (if \<not> truthy_str (m_body req) then terminate K missing_sdp_options s4
            else ok () (enqueue [Then (H_setRemoteDescription Answer (the (m_body req))),
                                 Then (H_ack_confirmed req),
                                 Catch H_ack_failed]
                          (emit (E_sdp Remote Answer (the (m_body req))) s4)))
         else if \<not> is_confirmed s then ok () (u_confirmed Remote (Some req) s4)
         else ok () s4)"
  using assms
  by (simp add: receiveRequest_def Let_def emit_def act_def set_status_def clearTimeout_def
      split: option.splits)

lemma missing_sdp_valid: "\<not> invalid_status_code (t_status_code missing_sdp_options)"
  by (simp add: missing_sdp_options_def invalid_status_code_def)

lemma missing_sdp_fields:
  "t_cause missing_sdp_options = Some causes_MISSING_SDP"
  "t_body missing_sdp_options = None"
  by (simp_all add: missing_sdp_options_def)

lemma show_int_400: "show_int 400 = ''400''"
  by (simp add: show_int_def show_nat.simps digit_char_def)


lemma missing_sdp_reason:
  "bye_headers K missing_sdp_options
     = [''Reason: SIP ;cause=400; text='' @ [CHR 0x22]
          @ (case REASON_PHRASE K 400 of None \<Rightarrow> [] | Some p \<Rightarrow> p) @ [CHR 0x22]]"
  by (simp add: missing_sdp_options_def bye_headers_def truthy_num_def reason_header_def
      reason_phrase_of_def str_or_def quoted_def show_int_400 split: option.splits)


lemma ack_events_prefix:
  assumes "m_method req = ACK"
  shows "\<exists>rest. events_of (trace (snd (receiveRequest K req rejected s)))
                  = events_of (trace s) @ E_ackReceived req # rest"
proof (cases "status s = STATUS_WAITING_FOR_ACK")
  case False
  then show ?thesis by (simp add: ack_not_waiting [OF assms] events_of_append)
next
  case True
  then show ?thesis
    by (auto simp add: ack_waiting_unfold [OF assms] Let_def ok_def events_of_append
        terminate_established missing_sdp_valid u_confirmed_def events_u_ended
        split: option.splits)
qed

lemma ack_waiting_timers:
  assumes "m_method req = ACK" "status s = STATUS_WAITING_FOR_ACK"
    and "ackTimer (timers s) = Some h \<or> invite2xxTimer (timers s) = Some h"
  shows "h \<notin> handles (snd (receiveRequest K req rejected s))"
proof -
  let ?s4 = "clearTimeout (invite2xxTimer (timers s))
                 (clearTimeout (ackTimer (timers s))
                    (set_status STATUS_CONFIRMED (emit (E_ackReceived req) s)))"
  have h4: "h \<notin> handles ?s4"
    using assms(3) by (auto simp add: handles_clearTimeout)
  have t: "handles (snd (terminate K missing_sdp_options ?s4)) \<subseteq> handles ?s4"
    by (rule handles_terminate)
  show ?thesis
    using h4 t
    by (auto simp add: ack_waiting_unfold[OF assms(1,2)] Let_def ok_def u_confirmed_def)
qed

lemma ack_waiting_status:
  assumes "m_method req = ACK" "status s = STATUS_WAITING_FOR_ACK"
  shows "\<exists>rest. statuses_of (trace (snd (receiveRequest K req rejected s)))
                  = statuses_of (trace s) @ STATUS_CONFIRMED # rest"
  using assms(2)
  by (auto simp add: ack_waiting_unfold [OF assms] Let_def ok_def statuses_of_append
        terminate_established missing_sdp_valid u_confirmed_def statuses_u_ended
        split: option.splits)

lemma ack_waiting_confirmed:
  assumes "m_method req = ACK" "status s = STATUS_WAITING_FOR_ACK"
    and "\<not> late_sdp s \<or> truthy_str (m_body req)"
  shows "fst (receiveRequest K req rejected s) = Inr ()
         \<and> status (snd (receiveRequest K req rejected s)) = STATUS_CONFIRMED"
  using assms(3)
  by (auto simp add: ack_waiting_unfold [OF assms(1,2)] Let_def ok_def u_confirmed_def)

lemma ack_waiting_missing_sdp:
  assumes "m_method req = ACK" "status s = STATUS_WAITING_FOR_ACK"
    and "late_sdp s" "\<not> truthy_str (m_body req)" "dialog s \<noteq> None"
  shows "fst (receiveRequest K req rejected s) = Inr ()
         \<and> status (snd (receiveRequest K req rejected s)) = STATUS_TERMINATED
         \<and> sent_of (trace (snd (receiveRequest K req rejected s)))
             = sent_of (trace s)
               @ [Dialog_sendRequest BYE
                    [''Reason: SIP ;cause=400; text='' @ [CHR 0x22]
                       @ (case REASON_PHRASE K 400 of None \<Rightarrow> [] | Some p \<Rightarrow> p)
                       @ [CHR 0x22]] None]
         \<and> events_of (trace (snd (receiveRequest K req rejected s)))
             = events_of (trace s)
               @ [E_ackReceived req, E_ended Local None causes_MISSING_SDP]"
  using assms(3-)
  by (auto simp add: ack_waiting_unfold [OF assms(1,2)] Let_def
      terminate_established missing_sdp_valid events_u_ended sent_u_ended
      events_of_append sent_of_append sent_of_Nil sent_of_Cons missing_sdp_fields
      missing_sdp_reason simp del: append.simps split: option.splits)

text \<open>
  C4. For an incoming ACK: \<open>ackReceived\<close> is emitted first, whatever the status. When
  the status is not WAITING_FOR_ACK nothing else happens. Otherwise the status is set
  to CONFIRMED and the handles of the ACK timer and of the 2xx-retransmission timer are
  no longer pending; the status stays CONFIRMED unless the session is in late-SDP mode
  and the ACK has no body, and in that case (with the confirmed dialog in place) the
  session terminates: a BYE with the header
  \<open>Reason: SIP ;cause=400; text="..."\<close>, the text being the reason phrase of 400, is
  sent through the dialog, \<open>ended\<close> is emitted with originator local and cause
  MISSING_SDP, and the status is TERMINATED.
\<close>

theorem ack_request:
  assumes "m_method req = ACK"
  shows "(\<exists>rest. events_of (trace (snd (receiveRequest K req rejected s)))
                  = events_of (trace s) @ E_ackReceived req # rest)
       \<and> (status s \<noteq> STATUS_WAITING_FOR_ACK
          \<longrightarrow> receiveRequest K req rejected s
                = (Inr (), s\<lparr>trace := trace s @ [Emit (E_ackReceived req)]\<rparr>))
       \<and> (status s = STATUS_WAITING_FOR_ACK
          \<longrightarrow> (\<exists>rest. statuses_of (trace (snd (receiveRequest K req rejected s)))
                        = statuses_of (trace s) @ STATUS_CONFIRMED # rest)
              \<and> (\<forall>h. ackTimer (timers s) = Some h \<or> invite2xxTimer (timers s) = Some h
                     \<longrightarrow> h \<notin> fst ` set (pending (snd (receiveRequest K req rejected s)))))
       \<and> (status s = STATUS_WAITING_FOR_ACK \<and> (\<not> late_sdp s \<or> truthy_str (m_body req))
          \<longrightarrow> fst (receiveRequest K req rejected s) = Inr ()
              \<and> status (snd (receiveRequest K req rejected s)) = STATUS_CONFIRMED)
       \<and> (status s = STATUS_WAITING_FOR_ACK \<and> late_sdp s \<and> \<not> truthy_str (m_body req)
            \<and> dialog s \<noteq> None
          \<longrightarrow> fst (receiveRequest K req rejected s) = Inr ()
              \<and> status (snd (receiveRequest K req rejected s)) = STATUS_TERMINATED
              \<and> sent_of (trace (snd (receiveRequest K req rejected s)))
                  = sent_of (trace s)
                    @ [Dialog_sendRequest BYE
                         [''Reason: SIP ;cause=400; text='' @ [CHR 0x22]
                            @ (case REASON_PHRASE K 400 of None \<Rightarrow> [] | Some p \<Rightarrow> p)
                            @ [CHR 0x22]] None]
              \<and> events_of (trace (snd (receiveRequest K req rejected s)))
                  = events_of (trace s)
                    @ [E_ackReceived req, E_ended Local None causes_MISSING_SDP])"
proof -
  have a: "status s \<noteq> STATUS_WAITING_FOR_ACK
          \<Longrightarrow> receiveRequest K req rejected s
                = (Inr (), s\<lparr>trace := trace s @ [Emit (E_ackReceived req)]\<rparr>)"
    using ack_not_waiting [OF assms, of s K rejected] by (simp add: emit_def act_def)
  have b: "status s = STATUS_WAITING_FOR_ACK
           \<Longrightarrow> ackTimer (timers s) = Some h \<or> invite2xxTimer (timers s) = Some h
           \<Longrightarrow> h \<notin> fst ` set (pending (snd (receiveRequest K req rejected s)))" for h
    using ack_waiting_timers [OF assms, of s h K rejected] by (simp add: handles_def)
  show ?thesis
    using ack_events_prefix [OF assms, of K rejected s] a b
      ack_waiting_status [OF assms, of s K rejected]
      ack_waiting_confirmed [OF assms, of s K rejected]
      ack_waiting_missing_sdp [OF assms, of s K rejected]
    by blast
qed

theorem ack_request_witness:
  "receiveRequest example_constants (example_message ACK 0) None confirmed_session
     = (Inr (), confirmed_session\<lparr>trace := [Emit (E_ackReceived (example_message ACK 0))]\<rparr>)
   \<and> fst (receiveRequest example_constants (example_message ACK 0) None
            (waiting_for_ack_session\<lparr>late_sdp := False\<rparr>)) = Inr ()
   \<and> status (snd (receiveRequest example_constants (example_message ACK 0) None
                     (waiting_for_ack_session\<lparr>late_sdp := False\<rparr>))) = STATUS_CONFIRMED
   \<and> 0 \<notin> fst ` set (pending (snd (receiveRequest example_constants (example_message ACK 0)
                                      None waiting_for_ack_session)))
   \<and> 1 \<notin> fst ` set (pending (snd (receiveRequest example_constants (example_message ACK 0)
                                      None waiting_for_ack_session)))
   \<and> status (snd (receiveRequest example_constants (example_message ACK 0) None
                     waiting_for_ack_session)) = STATUS_TERMINATED
   \<and> sent_of (trace (snd (receiveRequest example_constants (example_message ACK 0) None
                             waiting_for_ack_session)))
       = [Dialog_sendRequest BYE
            [''Reason: SIP ;cause=400; text='' @ [CHR 0x22] @ ''Bad Request'' @ [CHR 0x22]]
            None]
   \<and> events_of (trace (snd (receiveRequest example_constants (example_message ACK 0) None
                               waiting_for_ack_session)))
       = [E_ackReceived (example_message ACK 0), E_ended Local None causes_MISSING_SDP]"
proof -
  have m: "m_method (example_message ACK 0) = ACK"
    by (simp add: example_message_def)
  have b: "\<not> truthy_str (m_body (example_message ACK 0))"
    by (simp add: example_message_def truthy_str_def)
  have k: "REASON_PHRASE example_constants 400 = Some ''Bad Request''"
    by (simp add: example_constants_def)
  have w: "status confirmed_session = STATUS_CONFIRMED" "trace confirmed_session = []"
      "status waiting_for_ack_session = STATUS_WAITING_FOR_ACK"
      "late_sdp waiting_for_ack_session" "dialog waiting_for_ack_session = Some example_dialog"
      "trace waiting_for_ack_session = []"
      "ackTimer (timers waiting_for_ack_session) = Some 0"
      "invite2xxTimer (timers waiting_for_ack_session) = Some 1"
    by (simp_all add: waiting_for_ack_session_def confirmed_session_def new_session_def
        constructor_def)
  show ?thesis
    using ack_request [OF m, of example_constants None confirmed_session]
      ack_request [OF m, of example_constants None "waiting_for_ack_session\<lparr>late_sdp := False\<rparr>"]
      ack_request [OF m, of example_constants None waiting_for_ack_session] b
    by (simp add: w k sent_of_Nil)
qed

subsection \<open>The 2xx-retransmission timer\<close>

lemma next_timeout_closed:
  "T1 K \<le> T2 K \<Longrightarrow> (next_timeout K ^^ k) (T1 K) = min (T1 K * 2 ^ k) (T2 K)"
proof (induction k)
  case 0
  then show ?case by simp
next
  case (Suc k)
  then show ?case
    by (auto simp add: next_timeout_def min_def)
qed

lemma next_timeout_in_range:
  assumes "T1 K \<le> T2 K" "T2 K \<le> 2147483647"
  shows "\<not> 2147483647 < int ((next_timeout K ^^ k) (T1 K))"
  using assms by (simp add: next_timeout_closed)

lemma fire_last:
  assumes "pending s = ps @ [(h, cb, d)]" "\<forall>p \<in> set ps. fst p \<noteq> h"
  shows "fire_timer K h s = run_callback K cb (s\<lparr>pending := ps\<rparr>)"
proof -
  have f: "find (\<lambda>p. fst p = h) ps = None"
    using assms(2) by (auto simp add: find_None_iff)
  have "find (\<lambda>p. fst p = h) (ps @ [(h, cb, d)]) = Some (h, cb, d)"
    using f by (induction ps) (auto split: if_splits)
  moreover have "filter (\<lambda>q. fst q \<noteq> h) (ps @ [(h, cb, d)]) = ps"
    using assms(2) by (induction ps) auto
  ultimately show ?thesis
    by (simp add: fire_timer_def assms(1))
qed

lemma retransmissions_invariant:
  assumes "status s = STATUS_WAITING_FOR_ACK" "handles_fresh s"
    and "T1 K \<le> T2 K" "T2 K \<le> 2147483647"
  shows "pending (retransmissions K k (u_setInvite2xxTimer K req body s))
           = pending s @ [(next_handle s + k,
                           CB_invite2xxRetransmission req body ((next_timeout K ^^ k) (T1 K)),
                           int ((next_timeout K ^^ k) (T1 K)))]
       \<and> next_handle (retransmissions K k (u_setInvite2xxTimer K req body s))
           = Suc (next_handle s + k)
       \<and> invite2xxTimer (timers (retransmissions K k (u_setInvite2xxTimer K req body s)))
           = Some (next_handle s + k)
       \<and> status (retransmissions K k (u_setInvite2xxTimer K req body s)) = STATUS_WAITING_FOR_ACK
       \<and> contact (retransmissions K k (u_setInvite2xxTimer K req body s)) = contact s
       \<and> trace (retransmissions K k (u_setInvite2xxTimer K req body s))
           = trace s @ replicate k (Reply req 200 None [contact_header s] body)"
proof (induction k)
  case 0
  have r: "\<not> 2147483647 < int (T1 K)"
    using next_timeout_in_range [OF assms(3,4), of 0] by simp
  show ?case
    using assms(1) r by (simp add: u_setInvite2xxTimer_def setTimeout_def Let_def)
next
  case (Suc k)
  let ?sk = "retransmissions K k (u_setInvite2xxTimer K req body s)"
  let ?t = "(next_timeout K ^^ k) (T1 K)"
  have r: "\<not> 2147483647 < int (next_timeout K ?t)"
    using next_timeout_in_range [OF assms(3,4), of "Suc k"] by simp
  have fresh: "\<forall>p \<in> set (pending s). fst p \<noteq> next_handle s + k"
    using assms(2) by (auto simp add: handles_fresh_def handles_def)
  have fire: "fire_timer K (next_handle s + k) ?sk
                = run_callback K (CB_invite2xxRetransmission req body ?t)
                    (?sk\<lparr>pending := pending s\<rparr>)"
    using Suc.IH fresh by (intro fire_last) auto
  show ?case
    using Suc.IH r
    by (simp add: fire run_callback_def ok_def invite2xxRetransmission_def Let_def
        setTimeout_def contact_header_def replicate_append_same)
qed

lemma retransmissions_other_status:
  assumes "status s \<noteq> STATUS_WAITING_FOR_ACK" "handles_fresh s"
    and "T1 K \<le> T2 K" "T2 K \<le> 2147483647"
  shows "pending (retransmissions K (Suc k) (u_setInvite2xxTimer K req body s)) = pending s
       \<and> invite2xxTimer (timers (retransmissions K (Suc k) (u_setInvite2xxTimer K req body s)))
           = Some (next_handle s)
       \<and> trace (retransmissions K (Suc k) (u_setInvite2xxTimer K req body s)) = trace s"
proof (induction k)
  case 0
  have r: "\<not> 2147483647 < int (T1 K)"
    using next_timeout_in_range [OF assms(3,4), of 0] by simp
  have fresh: "\<forall>p \<in> set (pending s). fst p \<noteq> next_handle s"
    using assms(2) by (auto simp add: handles_fresh_def handles_def)
  have p: "pending (u_setInvite2xxTimer K req body s)
             = pending s @ [(next_handle s, CB_invite2xxRetransmission req body (T1 K), int (T1 K))]"
    using r by (simp add: u_setInvite2xxTimer_def setTimeout_def Let_def)
  have fire: "fire_timer K (next_handle s) (u_setInvite2xxTimer K req body s)
                = run_callback K (CB_invite2xxRetransmission req body (T1 K))
                    ((u_setInvite2xxTimer K req body s)\<lparr>pending := pending s\<rparr>)"
    using p fresh by (intro fire_last) auto
  have h: "invite2xxTimer (timers (u_setInvite2xxTimer K req body s)) = Some (next_handle s)"
    by (simp add: u_setInvite2xxTimer_def setTimeout_def Let_def)
  show ?case
    using assms(1)
    by (simp add: h fire run_callback_def ok_def invite2xxRetransmission_def)
       (simp add: u_setInvite2xxTimer_def setTimeout_def Let_def)
next
  case (Suc k)
  have fresh: "find (\<lambda>p. fst p = next_handle s) (pending s) = None"
    using assms(2) by (auto simp add: handles_fresh_def handles_def find_None_iff)
  show ?case
    using Suc.IH fresh
    by (subst (1 2 3) retransmissions.simps(2))
       (simp add: fire_timer_def ok_def del: retransmissions.simps(2))
qed

text \<open>
  C5. The 2xx-retransmission timer (with T1 \<open>\<le>\<close> T2 \<open>\<le>\<close> 2147483647 ms, as for the
  RFC 3261 values, in a session whose pending handles were drawn from its counter):
  setting it schedules the first retransmission after T1. While the status is
  WAITING_FOR_ACK, \<open>k\<close> firings in a row send \<open>k\<close> replies 200 with the one header
  \<open>Contact: \<close> followed by the session's contact and with the same body, and leave the
  next retransmission scheduled after min (T1 * 2^k, T2): the interval doubles at each
  firing and is capped at T2. In any other status a firing sends nothing and schedules
  nothing.
\<close>

theorem invite2xx_retransmission:
  assumes "T1 K \<le> T2 K" "T2 K \<le> 2147483647"
    and "\<forall>p \<in> set (pending s). fst p < next_handle s"
  shows "pending (u_setInvite2xxTimer K req body s)
           = pending s
             @ [(next_handle s, CB_invite2xxRetransmission req body (T1 K), int (T1 K))]
       \<and> (status s = STATUS_WAITING_FOR_ACK
          \<longrightarrow> trace (retransmissions K k (u_setInvite2xxTimer K req body s))
                = trace s
                  @ replicate k
                      (Reply req 200 None
                         [''Contact: '' @ (case contact s of None \<Rightarrow> ''null'' | Some c \<Rightarrow> c)]
                         body)
              \<and> pending (retransmissions K k (u_setInvite2xxTimer K req body s))
                = pending s
                  @ [(next_handle s + k,
                      CB_invite2xxRetransmission req body (min (T1 K * 2 ^ k) (T2 K)),
                      int (min (T1 K * 2 ^ k) (T2 K)))])
       \<and> (status s \<noteq> STATUS_WAITING_FOR_ACK
          \<longrightarrow> trace (retransmissions K (Suc k) (u_setInvite2xxTimer K req body s)) = trace s
              \<and> pending (retransmissions K (Suc k) (u_setInvite2xxTimer K req body s))
                = pending s)
       \<and> (status s \<noteq> STATUS_WAITING_FOR_ACK
          \<longrightarrow> run_callback K (CB_invite2xxRetransmission req' body' t) s = (Inr (), s))"
proof -
  have f: "handles_fresh s"
    using assms(3) by (auto simp add: handles_fresh_def handles_def)
  have r: "\<not> 2147483647 < int (T1 K)"
    using next_timeout_in_range [OF assms(1,2), of 0] by simp
  have a: "pending (u_setInvite2xxTimer K req body s)
           = pending s
             @ [(next_handle s, CB_invite2xxRetransmission req body (T1 K), int (T1 K))]"
    using r by (simp add: u_setInvite2xxTimer_def setTimeout_def Let_def)
  have d: "status s \<noteq> STATUS_WAITING_FOR_ACK
           \<Longrightarrow> run_callback K (CB_invite2xxRetransmission req' body' t) s = (Inr (), s)"
    by (simp add: run_callback_def invite2xxRetransmission_def ok_def)
  show ?thesis
    using a d retransmissions_invariant [OF _ f assms(1,2), of k req body]
      retransmissions_other_status [OF _ f assms(1,2), of k req body]
      next_timeout_closed [OF assms(1), of k]
    by (simp add: contact_header_def)
qed

theorem invite2xx_retransmission_witness:
  "pending (u_setInvite2xxTimer example_constants (example_message INVITE 0) (Some ''v=0'')
              (waiting_for_ack_session\<lparr>contact := Some ''<sip:alice@example.invalid>''\<rparr>))
     = [(0, CB_ackTimer, 32000),
        (1, CB_invite2xxRetransmission (example_message INVITE 0) (Some ''v=0'') 500, 500),
        (2, CB_invite2xxRetransmission (example_message INVITE 0) (Some ''v=0'') 500, 500)]
   \<and> trace (retransmissions example_constants 4
              (u_setInvite2xxTimer example_constants (example_message INVITE 0) (Some ''v=0'')
                 (waiting_for_ack_session\<lparr>contact := Some ''<sip:alice@example.invalid>''\<rparr>)))
     = [Reply (example_message INVITE 0) 200 None [''Contact: <sip:alice@example.invalid>'']
          (Some ''v=0''),
        Reply (example_message INVITE 0) 200 None [''Contact: <sip:alice@example.invalid>'']
          (Some ''v=0''),
        Reply (example_message INVITE 0) 200 None [''Contact: <sip:alice@example.invalid>'']
          (Some ''v=0''),
        Reply (example_message INVITE 0) 200 None [''Contact: <sip:alice@example.invalid>'']
          (Some ''v=0'')]
   \<and> pending (retransmissions example_constants 4
              (u_setInvite2xxTimer example_constants (example_message INVITE 0) (Some ''v=0'')
                 (waiting_for_ack_session\<lparr>contact := Some ''<sip:alice@example.invalid>''\<rparr>)))
     = [(0, CB_ackTimer, 32000),
        (1, CB_invite2xxRetransmission (example_message INVITE 0) (Some ''v=0'') 500, 500),
        (6, CB_invite2xxRetransmission (example_message INVITE 0) (Some ''v=0'') 4000, 4000)]
   \<and> trace (retransmissions example_constants (Suc 4)
              (u_setInvite2xxTimer example_constants (example_message INVITE 0) (Some ''v=0'')
                 confirmed_session))
     = []
   \<and> pending (retransmissions example_constants (Suc 4)
              (u_setInvite2xxTimer example_constants (example_message INVITE 0) (Some ''v=0'')
                 confirmed_session))
     = []"
proof -
  let ?w = "waiting_for_ack_session\<lparr>contact := Some ''<sip:alice@example.invalid>''\<rparr>"
  have t: "T1 example_constants \<le> T2 example_constants" "T2 example_constants \<le> 2147483647"
    by (simp_all add: example_constants_def)
  have f: "\<forall>p \<in> set (pending ?w). fst p < next_handle ?w"
    by (simp add: waiting_for_ack_session_def)
  have g: "\<forall>p \<in> set (pending confirmed_session). fst p < next_handle confirmed_session"
    by (simp add: confirmed_session_def new_session_def constructor_def)
  have w: "status ?w = STATUS_WAITING_FOR_ACK" "next_handle ?w = 2" "trace ?w = []"
      "contact ?w = Some ''<sip:alice@example.invalid>''"
      "pending ?w = [(0, CB_ackTimer, 32000),
                     (1, CB_invite2xxRetransmission (example_message INVITE 0) (Some ''v=0'') 500,
                      500)]"
    by (simp_all add: waiting_for_ack_session_def confirmed_session_def new_session_def
        constructor_def)
  have c: "status confirmed_session = STATUS_CONFIRMED" "trace confirmed_session = []"
      "pending confirmed_session = []"
    by (simp_all add: confirmed_session_def new_session_def constructor_def)
  have k: "T1 example_constants = 500" "T2 example_constants = 4000"
    by (simp_all add: example_constants_def)
  have n: "replicate 4 x = [x, x, x, x]" for x :: action
    by (simp add: numeral_eq_Suc)
  show ?thesis
    using invite2xx_retransmission [OF t f, of "example_message INVITE 0" "Some ''v=0''" 4]
      invite2xx_retransmission [OF t g, of "example_message INVITE 0" "Some ''v=0''" 4]
    by (simp add: w c k n del: retransmissions.simps replicate.simps)
qed

subsection \<open>The session timer\<close>



















subsection \<open>Queueing DTMF tones\<close>

lemma checked_tones_string:
  "checked_tones (JSString t) = Some t' \<longleftrightarrow> t' = t \<and> t \<noteq> [] \<and> list_all tone_char t"
  by (auto simp add: checked_tones_def Let_def)

lemma dtmf_duration_ok: "d \<noteq> NotDecimal \<Longrightarrow> \<exists>n. dtmf_duration K d t = Inr n"
  by (cases d) (simp_all add: dtmf_duration_def)

lemma dtmf_interToneGap_ok: "g \<noteq> NotDecimal \<Longrightarrow> \<exists>n. dtmf_interToneGap K g t = Inr n"
  by (cases g) (simp_all add: dtmf_interToneGap_def)

lemma sendDTMF_first:
  assumes "status s = STATUS_CONFIRMED \<or> status s = STATUS_WAITING_FOR_ACK"
    and "\<not> truthy_str (tones s)"
    and "t \<noteq> []" "list_all tone_char t"
    and "dtmf_duration K (o_duration options) (o_duration_text options) = Inr d"
    and "dtmf_interToneGap K (o_interToneGap options) (o_interToneGap_text options) = Inr g"
  shows "sendDTMF K (JSString t) options s
           = (Inr (),
              snd (setTimeout
                     (CB_sendDTMF 1 d g \<lparr>ds_duration = d, ds_extraHeaders = o_extraHeaders options\<rparr>)
                     (if hd t = CHR '','' then 2000 else d + g)
                     (if hd t = CHR '','' then s\<lparr>tones := Some t\<rparr>
                      else act (DTMF_send (hd t)
                                  \<lparr>ds_duration = d, ds_extraHeaders = o_extraHeaders options\<rparr>)
                             (s\<lparr>tones := Some t\<rparr>))))"
  using assms
  by (cases t)
     (auto simp add: sendDTMF_def checked_tones_def Let_def ok_def u_sendDTMF_def truthy_str_def)

lemma sendDTMF_queued:
  assumes "status s = STATUS_CONFIRMED \<or> status s = STATUS_WAITING_FOR_ACK"
    and "tones s = Some q" "q \<noteq> []"
    and "t \<noteq> []" "list_all tone_char t"
    and "o_duration options \<noteq> NotDecimal" "o_interToneGap options \<noteq> NotDecimal"
  shows "sendDTMF K (JSString t) options s = (Inr (), s\<lparr>tones := Some (q @ t)\<rparr>)"
proof -
  obtain d g where "dtmf_duration K (o_duration options) (o_duration_text options) = Inr d"
      "dtmf_interToneGap K (o_interToneGap options) (o_interToneGap_text options) = Inr g"
    using dtmf_duration_ok [OF assms(6)] dtmf_interToneGap_ok [OF assms(7)] by blast
  then show ?thesis
    using assms(1-5)
    by (auto simp add: sendDTMF_def checked_tones_def Let_def ok_def truthy_str_def)
qed

text \<open>
  C9. In a session whose status is CONFIRMED (or WAITING_FOR_ACK) and that has no tones
  queued, calling \<open>sendDTMF(t1)\<close> and then, while that sequence is running,
  \<open>sendDTMF(t2)\<close> leaves the session exactly as the single call \<open>sendDTMF(t1 + t2)\<close>
  with the first call's options does: the same tone already sent, the same timer
  pending, the same tones queued. So whatever happens next, the requests sent are the
  same in both. (The tones are valid, and the options of both calls pass the checks;
  the duration and gap of the second call are not used.)
\<close>

theorem sendDTMF_enqueue:
  assumes "status s = STATUS_CONFIRMED \<or> status s = STATUS_WAITING_FOR_ACK"
    and "\<not> truthy_str (tones s)"
    and "t1 \<noteq> []" "list_all tone_char t1" "t2 \<noteq> []" "list_all tone_char t2"
    and "o_duration o1 \<noteq> NotDecimal" "o_interToneGap o1 \<noteq> NotDecimal"
    and "o_duration o2 \<noteq> NotDecimal" "o_interToneGap o2 \<noteq> NotDecimal"
  shows "fst (sendDTMF K (JSString t1) o1 s) = Inr ()
       \<and> fst (sendDTMF K (JSString t2) o2 (snd (sendDTMF K (JSString t1) o1 s))) = Inr ()
       \<and> snd (sendDTMF K (JSString t2) o2 (snd (sendDTMF K (JSString t1) o1 s)))
           = snd (sendDTMF K (JSString (t1 @ t2)) o1 s)
       \<and> (\<forall>ins. sent_of (trace (run K ins
                    (snd (sendDTMF K (JSString t2) o2 (snd (sendDTMF K (JSString t1) o1 s))))))
                = sent_of (trace (run K ins (snd (sendDTMF K (JSString (t1 @ t2)) o1 s)))))"
proof -
  obtain d g where dg: "dtmf_duration K (o_duration o1) (o_duration_text o1) = Inr d"
      "dtmf_interToneGap K (o_interToneGap o1) (o_interToneGap_text o1) = Inr g"
    using dtmf_duration_ok [OF assms(7)] dtmf_interToneGap_ok [OF assms(8)] by blast
  let ?o = "\<lparr>ds_duration = d, ds_extraHeaders = o_extraHeaders o1\<rparr>"
  have first: "sendDTMF K (JSString t1) o1 s
           = (Inr (),
              snd (setTimeout (CB_sendDTMF 1 d g ?o)
                     (if hd t1 = CHR '','' then 2000 else d + g)
                     (if hd t1 = CHR '','' then s\<lparr>tones := Some t1\<rparr>
                      else act (DTMF_send (hd t1) ?o) (s\<lparr>tones := Some t1\<rparr>))))"
    by (rule sendDTMF_first [OF assms(1,2,3,4) dg])
  have both: "sendDTMF K (JSString (t1 @ t2)) o1 s
           = (Inr (),
              snd (setTimeout (CB_sendDTMF 1 d g ?o)
                     (if hd (t1 @ t2) = CHR '','' then 2000 else d + g)
                     (if hd (t1 @ t2) = CHR '','' then s\<lparr>tones := Some (t1 @ t2)\<rparr>
                      else act (DTMF_send (hd (t1 @ t2)) ?o) (s\<lparr>tones := Some (t1 @ t2)\<rparr>))))"
    using assms(3-6) by (intro sendDTMF_first [OF assms(1,2) _ _ dg]) auto
  let ?s1 = "snd (sendDTMF K (JSString t1) o1 s)"
  have s1: "status ?s1 = status s" "tones ?s1 = Some t1"
    by (simp_all add: first setTimeout_def)
  have second: "sendDTMF K (JSString t2) o2 ?s1 = (Inr (), ?s1\<lparr>tones := Some (t1 @ t2)\<rparr>)"
    using assms(1) by (intro sendDTMF_queued [OF _ s1(2) assms(3,5,6,9,10)]) (simp add: s1)
  have eq: "snd (sendDTMF K (JSString t2) o2 ?s1) = snd (sendDTMF K (JSString (t1 @ t2)) o1 s)"
    using assms(3) by (simp add: second) (simp add: first both setTimeout_def act_def)
  have f1: "fst (sendDTMF K (JSString t1) o1 s) = Inr ()"
    by (simp add: first)
  have f2: "fst (sendDTMF K (JSString t2) o2 ?s1) = Inr ()"
    by (simp only: second fst_conv)
  show ?thesis
    using f1 f2 eq by simp
qed

theorem sendDTMF_enqueue_witness:
  "snd (sendDTMF example_constants (JSString ''2'') default_dtmf_options
          (snd (sendDTMF example_constants (JSString ''1'') default_dtmf_options
                  confirmed_session)))
     = snd (sendDTMF example_constants (JSString ''12'') default_dtmf_options confirmed_session)
   \<and> sent_of (trace (run example_constants [In_timer 0, In_timer 1, In_timer 2]
          (snd (sendDTMF example_constants (JSString ''2'') default_dtmf_options
                  (snd (sendDTMF example_constants (JSString ''1'') default_dtmf_options
                          confirmed_session))))))
     = sent_of (trace (run example_constants [In_timer 0, In_timer 1, In_timer 2]
          (snd (sendDTMF example_constants (JSString ''12'') default_dtmf_options
                  confirmed_session))))
   \<and> sent_of (trace (run example_constants [In_timer 0, In_timer 1, In_timer 2]
          (snd (sendDTMF example_constants (JSString ''12'') default_dtmf_options
                  confirmed_session))))
     = [DTMF_send (CHR ''1'') \<lparr>ds_duration = 100, ds_extraHeaders = []\<rparr>,
        DTMF_send (CHR ''2'') \<lparr>ds_duration = 100, ds_extraHeaders = []\<rparr>]"
proof -
  have c: "status confirmed_session = STATUS_CONFIRMED" "\<not> truthy_str (tones confirmed_session)"
    by (simp_all add: confirmed_session_def new_session_def constructor_def truthy_str_def)
  have t: "list_all tone_char ''1''" "list_all tone_char ''2''"
    by (simp_all add: tone_char_def)
  have o: "o_duration default_dtmf_options \<noteq> NotDecimal"
      "o_interToneGap default_dtmf_options \<noteq> NotDecimal"
    by (simp_all add: default_dtmf_options_def)
  have e: "sent_of (trace (run example_constants [In_timer 0, In_timer 1, In_timer 2]
          (snd (sendDTMF example_constants (JSString ''12'') default_dtmf_options
                  confirmed_session))))
     = [DTMF_send (CHR ''1'') \<lparr>ds_duration = 100, ds_extraHeaders = []\<rparr>,
        DTMF_send (CHR ''2'') \<lparr>ds_duration = 100, ds_extraHeaders = []\<rparr>]"
    by (simp add: sendDTMF_def checked_tones_def tone_char_def dtmf_duration_def
        dtmf_interToneGap_def default_dtmf_options_def example_constants_def
        confirmed_session_def new_session_def constructor_def truthy_str_def ok_def
        u_sendDTMF_def setTimeout_def act_def step_def fire_timer_def run_callback_def
        sent_of_def Let_def)
  show ?thesis
    using sendDTMF_enqueue [of confirmed_session "''1''" "''2''" default_dtmf_options
        default_dtmf_options example_constants] c t o e
    by simp
qed

subsection \<open>The status after TERMINATED\<close>

text \<open>
  C2, at a trace from a session whose status is CONFIRMED. A re-INVITE without SDP makes
  the session create an offer and wait for the ICE gathering; the peer's BYE arrives and
  the status becomes TERMINATED; when the gathering ends, the \<open>sendAnswer\<close> that
  \<open>_receiveReinvite\<close> queued replies 200 to the re-INVITE, and the success callback of
  that reply writes the status WAITING_FOR_ACK and sets the session timer, the
  2xx-retransmission timer and the ACK timer.
\<close>

theorem terminated_then_waiting_for_ack:
  "status (run example_constants (butlast late_offer_then_bye) confirmed_session)
     = STATUS_TERMINATED
   \<and> status (run example_constants late_offer_then_bye confirmed_session)
       = STATUS_WAITING_FOR_ACK
   \<and> statuses_of (trace (run example_constants late_offer_then_bye confirmed_session))
       = [STATUS_TERMINATED, STATUS_WAITING_FOR_ACK]
   \<and> events_of (trace (run example_constants late_offer_then_bye confirmed_session))
       = [E_reinvite (example_message INVITE 0), E_icecandidate, E_byeReceived,
          E_ended Remote (Some (example_message BYE 0)) causes_BYE,
          E_sdp Local Offer ''v=0'']
   \<and> map (\<lambda>p. fst (snd p))
         (pending (run example_constants late_offer_then_bye confirmed_session))
       = [CB_sessionRefresh,
          CB_invite2xxRetransmission (example_message INVITE 0) (Some ''v=0'') 500,
          CB_ackTimer]"
  by (simp add: late_offer_then_bye_def example_peer_def confirmed_session_def new_session_def
      constructor_def example_ua_def example_constants_def example_message_def
      example_dialog_def step_def receiveRequest_def u_receiveReinvite_def enqueue_def
      emit_def act_def ok_def truthy_str_def run_queue_def media_settled_def icecandidate_def
      await_def u_ended_def u_close_def set_status_def clearTimeout_def
      terminate_early_dialogs_def reinvite_sendAnswer_def
      u_handleSessionTimersInIncomingRequest_def truthy_nat_def session_expires_header_def
      contact_header_def u_runSessionTimer_def setTimeout_def u_setInvite2xxTimer_def
      u_setACKTimer_def sdp_of_def str_or_def Let_def)

subsection \<open>How often failed is emitted\<close>

lemma createDialog_error:
  assumes "m_dialog_error msg = Some err" "earlyDialogs s = []"
  shows "u_createDialog msg UAC False s
           = (False, u_failed Remote (Some msg) causes_INTERNAL_ERROR
                       (s\<lparr>from_tag := Some (m_from_tag msg), to_tag := Some (m_to_tag msg)\<rparr>))"
  using assms by (simp add: u_createDialog_def Dialog_new_def Let_def)

lemma events_of_upd [simp]:
  "trace (s\<lparr>from_tag := a, to_tag := b\<rparr>) = trace s"
  "status (s\<lparr>from_tag := a, to_tag := b\<rparr>) = status s"
  "trace (s\<lparr>is_canceled := c, cancel_reason := d\<rparr>) = trace s"
  "status (s\<lparr>is_canceled := c, cancel_reason := d\<rparr>) = status s"
  by simp_all

lemma failed_twice_by_one_response:
  assumes "status s = STATUS_INVITE_SENT \<or> status s = STATUS_1XX_RECEIVED"
    and "dialog s = None" "earlyDialogs s = []" "\<not> is_canceled s"
    and "200 \<le> m_status_code response" "m_status_code response \<le> 299"
    and "\<not> truthy_str (m_body response)" "m_dialog_error response = Some err"
  shows "events_of (trace (snd (u_receiveInviteResponse K response s)))
           = events_of (trace s)
             @ [E_failed Remote (Some response) causes_INTERNAL_ERROR,
                E_failed Remote (Some response) causes_BAD_MEDIA_DESCRIPTION]"
proof -
  let ?s1 = "set_status STATUS_CONFIRMED s"
  have cd: "u_createDialog response UAC False ?s1
           = (False, u_failed Remote (Some response) causes_INTERNAL_ERROR
                       (?s1\<lparr>from_tag := Some (m_from_tag response),
                             to_tag := Some (m_to_tag response)\<rparr>))"
    using assms(3,8) by (intro createDialog_error) simp_all
  have at: "u_acceptAndTerminate K response (Some 400) (Some (cause_text K causes_MISSING_SDP)) ?s1
          = (Inr (), set_status STATUS_TERMINATED
                       (u_failed Remote (Some response) causes_INTERNAL_ERROR
                         (?s1\<lparr>from_tag := Some (m_from_tag response),
                               to_tag := Some (m_to_tag response)\<rparr>)))"
    using assms(2) by (simp add: u_acceptAndTerminate_def Let_def cd and_then_def ok_def)
  have "u_receiveInviteResponse K response s
          = (Inr (), u_failed Remote (Some response) causes_BAD_MEDIA_DESCRIPTION
                       (set_status STATUS_TERMINATED
                         (u_failed Remote (Some response) causes_INTERNAL_ERROR
                           (?s1\<lparr>from_tag := Some (m_from_tag response),
                                 to_tag := Some (m_to_tag response)\<rparr>))))"
    using assms(1,2,4,5,6,7)
    by (auto simp add: u_receiveInviteResponse_def Let_def at and_then_def ok_def)
  then show ?thesis
    by (simp add: events_u_failed events_u_close events_of_append)
qed

lemma failed_twice_after_terminate:
  assumes "status s = STATUS_NULL \<or> status s = STATUS_INVITE_SENT"
    and "dialog s = None" "earlyDialogs s = []"
    and "\<not> invalid_status_code (t_status_code options)"
    and "200 \<le> m_status_code response" "m_status_code response < 299"
    and "m_dialog_error response = Some err"
  shows "events_of (trace (snd (u_receiveInviteResponse K response
                                  (snd (terminate K options s)))))
           = events_of (trace s)
             @ [E_failed Local None causes_CANCELED,
                E_failed Remote (Some response) causes_INTERNAL_ERROR]"
proof -
  let ?s0 = "s\<lparr>is_canceled := True, cancel_reason := cancel_reason_for K options\<rparr>"
  let ?s1 = "u_failed Local None causes_CANCELED (set_status STATUS_CANCELED ?s0)"
  have t: "terminate K options s = (Inr (), ?s1)"
    by (rule terminate_before_send [OF assms(1,4)])
  have d: "dialog ?s1 = None" "earlyDialogs ?s1 = []" "is_canceled ?s1"
    using assms(2,3) by (simp_all add: u_failed_def u_close_def Let_def split: option.splits)
  have cd: "u_createDialog response UAC False ?s1
           = (False, u_failed Remote (Some response) causes_INTERNAL_ERROR
                       (?s1\<lparr>from_tag := Some (m_from_tag response),
                             to_tag := Some (m_to_tag response)\<rparr>))"
    using d(2) assms(7) by (intro createDialog_error) simp_all
  have at: "u_acceptAndTerminate K response None None ?s1
          = (Inr (), set_status STATUS_TERMINATED
                       (u_failed Remote (Some response) causes_INTERNAL_ERROR
                         (?s1\<lparr>from_tag := Some (m_from_tag response),
                               to_tag := Some (m_to_tag response)\<rparr>)))"
    using d(1) by (simp add: u_acceptAndTerminate_def Let_def cd and_then_def ok_def)
  have "u_receiveInviteResponse K response ?s1
          = (Inr (), set_status STATUS_TERMINATED
                       (u_failed Remote (Some response) causes_INTERNAL_ERROR
                         (?s1\<lparr>from_tag := Some (m_from_tag response),
                               to_tag := Some (m_to_tag response)\<rparr>)))"
    using d(1,3) assms(5,6)
    by (simp add: u_receiveInviteResponse_def Let_def at)
  then show ?thesis
    by (simp add: t events_u_failed events_u_close events_of_append)
qed

lemma invite_sent:
  "status (run example_constants example_connect new_session) = STATUS_INVITE_SENT
   \<and> events_of (trace (run example_constants example_connect new_session))
       = [E_connecting, E_sending]
   \<and> dialog (run example_constants example_connect new_session) = None
   \<and> earlyDialogs (run example_constants example_connect new_session) = []
   \<and> \<not> is_canceled (run example_constants example_connect new_session)"
  by (simp add: example_connect_def new_session_def constructor_def example_ua_def
      example_constants_def example_connect_options_def example_fresh_def
      step_def connect_def connect_checked_def Let_def ok_def u_newRTCSession_def
      u_sendInitialRequest_def
      sendInitialRequest_tick_def u_connecting_def contact_header_def act_def emit_def
      set_status_def)

lemma run_append: "run K (xs @ ys) s = run K ys (run K xs s)"
  by (induction xs arbitrary: s) simp_all

text \<open>
  C1, at two traces from a new session. After \<open>connect\<close> and its tick, one 200 response
  without a body from which no dialog can be built makes the session emit \<open>failed\<close>
  twice: once from \<open>_createDialog\<close> inside \<open>_acceptAndTerminate\<close>, once from the caller.
  And after \<open>connect\<close>, its tick and \<open>terminate()\<close>, which emits \<open>failed\<close> with cause
  CANCELED, a 200 response from which no dialog can be built makes the session emit
  \<open>failed\<close> a second time.
\<close>

theorem failed_fires_twice:
  "events_of (trace (run example_constants
                       (example_connect @ [In_receiveInviteResponse bad_200]) new_session))
     = [E_connecting, E_sending,
        E_failed Remote (Some bad_200) causes_INTERNAL_ERROR,
        E_failed Remote (Some bad_200) causes_BAD_MEDIA_DESCRIPTION]
   \<and> events_of (trace (run example_constants
                       (example_connect
                          @ [In_terminate no_options, In_receiveInviteResponse bad_200_sdp])
                       new_session))
     = [E_connecting, E_sending,
        E_failed Local None causes_CANCELED,
        E_failed Remote (Some bad_200_sdp) causes_INTERNAL_ERROR]"
proof -
  let ?s = "run example_constants example_connect new_session"
  have b: "200 \<le> m_status_code bad_200" "m_status_code bad_200 \<le> 299"
      "\<not> truthy_str (m_body bad_200)" "m_dialog_error bad_200 = Some ''no Contact header''"
      "200 \<le> m_status_code bad_200_sdp" "m_status_code bad_200_sdp < 299"
      "m_dialog_error bad_200_sdp = Some ''no Contact header''"
    by (simp_all add: bad_200_def bad_200_sdp_def example_message_def truthy_str_def)
  have n: "\<not> invalid_status_code (t_status_code no_options)"
    by (simp add: no_options_def invalid_status_code_def)
  have one: "events_of (trace (snd (u_receiveInviteResponse example_constants bad_200 ?s)))
           = events_of (trace ?s)
             @ [E_failed Remote (Some bad_200) causes_INTERNAL_ERROR,
                E_failed Remote (Some bad_200) causes_BAD_MEDIA_DESCRIPTION]"
    using invite_sent b by (intro failed_twice_by_one_response) simp_all
  have two: "events_of (trace (snd (u_receiveInviteResponse example_constants bad_200_sdp
                                  (snd (terminate example_constants no_options ?s)))))
           = events_of (trace ?s)
             @ [E_failed Local None causes_CANCELED,
                E_failed Remote (Some bad_200_sdp) causes_INTERNAL_ERROR]"
    using invite_sent b n by (intro failed_twice_after_terminate) simp_all
  show ?thesis
    using one two invite_sent by (simp add: run_append step_def)
qed

subsection \<open>Errors raised by the public operations\<close>

lemma terminate_error_unchanged:
  "fst (terminate K options s) = Inl e \<Longrightarrow> snd (terminate K options s) = s"
proof (cases "invalid_status_code (t_status_code options)")
  case True
  assume "fst (terminate K options s) = Inl e"
  then show ?thesis using True
    by (cases "status s")
       (simp_all add: terminate_invalid_code terminate_TERMINATED terminate_no_case)
next
  case False
  assume "fst (terminate K options s) = Inl e"
  then show ?thesis using False
    by (cases "status s")
       (simp_all add: terminate_before_send terminate_1XX_RECEIVED terminate_established
          terminate_TERMINATED terminate_no_case split: option.splits)
qed

lemma sendInfo_error_unchanged:
  "fst (sendInfo contentType body s) = Inl e \<Longrightarrow> snd (sendInfo contentType body s) = s"
  by (simp add: sendInfo_def throw_def ok_def split: if_splits)

lemma sendDTMF_error_unchanged:
  assumes "fst (sendDTMF K tns options s) = Inl e"
  shows "snd (sendDTMF K tns options s) = s"
proof (cases "tns = JSUndefined
              \<or> (status s \<noteq> STATUS_CONFIRMED \<and> status s \<noteq> STATUS_WAITING_FOR_ACK)")
  case True
  then show ?thesis by (auto simp add: sendDTMF_def throw_def)
next
  case False
  note ok_state = False
  show ?thesis
  proof (cases "checked_tones tns")
    case None
    then show ?thesis using ok_state by (simp add: sendDTMF_def throw_def)
  next
    case (Some t)
    note tones_ok = Some
    show ?thesis
    proof (cases "dtmf_duration K (o_duration options) (o_duration_text options)")
      case (Inl a)
      then show ?thesis using ok_state tones_ok by (simp add: sendDTMF_def throw_def)
    next
      case (Inr d)
      note dur = Inr
      show ?thesis
      proof (cases "dtmf_interToneGap K (o_interToneGap options)
                      (o_interToneGap_text options)")
        case (Inl a)
        then show ?thesis using ok_state tones_ok dur by (simp add: sendDTMF_def throw_def)
      next
        case (Inr g)
        then have "fst (sendDTMF K tns options s) = Inr ()"
          using ok_state tones_ok dur by (auto simp add: sendDTMF_def ok_def)
        then show ?thesis using assms by simp
      qed
    qed
  qed
qed

lemma connect_error_data:
  "fst (connect K target sdp options initCallback fr s) = Inl e
   \<Longrightarrow> snd (connect K target sdp options initCallback fr s)
       = s\<lparr>data := (case c_data options of None \<Rightarrow> data s | Some d \<Rightarrow> d)\<rparr>"
  unfolding connect_def throw_def ok_def Let_def
  by (simp split: if_splits option.splits)

text \<open>
  C8, at two calls of \<open>connect\<close> that raise: without a target on a new session
  (TypeError), and with a target on a session whose status is CONFIRMED
  (InvalidStateError). In both the session's \<open>data\<close> has been replaced by
  \<open>options.data\<close> when the error is raised.
\<close>

theorem connect_error_changes_data:
  "connect example_constants None (Some ''v=0'') example_connect_options False example_fresh
     new_session
     = (Inl (TypeError ''Not enough arguments''), new_session\<lparr>data := ''app-data''\<rparr>)
   \<and> connect example_constants (Some ''sip:bob@example.invalid'') (Some ''v=0'')
       example_connect_options False example_fresh confirmed_session
     = (Inl (InvalidStateError STATUS_CONFIRMED), confirmed_session\<lparr>data := ''app-data''\<rparr>)
   \<and> data new_session = []
   \<and> data confirmed_session = []"
  by (simp add: connect_def throw_def Let_def example_connect_options_def new_session_def
      confirmed_session_def constructor_def)

end
